theory Spec2Isabelle
  imports Complex_Main "HOL-Library.Word" "HOL-Library.Multiset" "HOL-Library.AList"
begin

unbundle bit_operations_syntax

section \<open>Erathia native terrain and vegetation: shared data\<close>

text \<open>
  The two components of \<^verbatim>\<open>addons/erathia_terrain_native/src\<close> are embedded here:
  \<^verbatim>\<open>native_terrain_generator.{h,cpp}\<close> (request queue, in-flight map, completed cache,
  background readback loop) and \<^verbatim>\<open>native_vegetation_dispatcher.{h,cpp}\<close> (placement cache,
  LRU list, placement decoder).

  Conventions of the embedding.
  \<^item> \<^verbatim>\<open>uint8_t\<close>, \<^verbatim>\<open>uint32_t\<close>, \<^verbatim>\<open>uint64_t\<close> are words. A \<^verbatim>\<open>float\<close> that is only copied
    (\<^verbatim>\<open>memcpy\<close>) is the 32-bit word of its bit pattern.
  \<^item> A \<^verbatim>\<open>float\<close> that is compared or computed with (request priorities, positions) is a
    real number; NaN and infinities are outside the model.
  \<^item> \<^verbatim>\<open>Vector3i\<close> is a triple of integers, an \<^verbatim>\<open>RID\<close> is a natural number with
    \<^verbatim>\<open>RID()\<close> (the invalid handle) being 0.
  \<^item> \<^verbatim>\<open>std::unordered_map\<close> is an association list with distinct keys; its iteration order
    is the list order.
\<close>

type_synonym byte = "8 word"
type_synonym u32 = "32 word"
type_synonym u64 = "64 word"
type_synonym Vector3i = "int \<times> int \<times> int"
type_synonym Vector3 = "real \<times> real \<times> real"
type_synonym RID = nat

definition is_valid :: "RID \<Rightarrow> bool" where
  "is_valid r = (r \<noteq> 0)"

subsection \<open>The compute backend\<close>

text \<open>
  \<^verbatim>\<open>RenderingDevice\<close> belongs to the engine, not to this repository. The model keeps what
  the two components can observe of it: handles are numbered as they are created,
  \<open>live\<close> lists the handles created and not yet freed, \<open>create_results\<close> scripts the
  outcome of the coming creation calls (\<open>False\<close>: the call returns the invalid handle; an
  exhausted script means success), \<open>submitted\<close> lists the compute lists submitted, and
  \<open>contents\<close> is what a readback of a handle returns (the shaders' output).
\<close>

datatype gpu_job =
  BiomeMapJob
  | ChunkJob Vector3i
  | PlacementJob Vector3i int
  | TransformJob Vector3i int

record gpu_env =
  next_id :: nat
  live :: "RID list"
  create_results :: "bool list"
  submitted :: "gpu_job list"
  contents :: "RID \<Rightarrow> byte list"

definition rd_create :: "gpu_env \<Rightarrow> RID \<times> gpu_env" where
  "rd_create e =
     (case create_results e of
        False # rest \<Rightarrow> (0, e\<lparr>create_results := rest\<rparr>)
      | _ \<Rightarrow> (Suc (next_id e),
              e\<lparr>create_results := tl (create_results e), next_id := Suc (next_id e),
                live := Suc (next_id e) # live e\<rparr>))"

definition free_rid :: "RID \<Rightarrow> gpu_env \<Rightarrow> gpu_env" where
  "free_rid r e = e\<lparr>live := removeAll r (live e)\<rparr>"

definition submit :: "gpu_job \<Rightarrow> gpu_env \<Rightarrow> gpu_env" where
  "submit job e = e\<lparr>submitted := submitted e @ [job]\<rparr>"

text \<open>\<^verbatim>\<open>buffer_get_data(buffer, offset, size)\<close>.\<close>

definition buffer_get_data :: "gpu_env \<Rightarrow> RID \<Rightarrow> nat \<Rightarrow> nat \<Rightarrow> byte list" where
  "buffer_get_data e r off n = take n (drop off (contents e r))"

subsection \<open>Nested hash maps\<close>

text \<open>
  \<^verbatim>\<open>unordered_map<Vector3i, unordered_map<int, V>>\<close>: \<open>find2\<close> is the two \<^verbatim>\<open>find\<close> calls,
  \<open>store2\<close> is \<^verbatim>\<open>m[c][t] = v\<close> (\<^verbatim>\<open>operator[]\<close> creates a missing inner map), \<open>erase2\<close> erases
  the inner key and then the outer one when the inner map became empty.
\<close>

definition find2 :: "('a \<times> ('b \<times> 'v) list) list \<Rightarrow> 'a \<Rightarrow> 'b \<Rightarrow> 'v option" where
  "find2 m c t = (case map_of m c of None \<Rightarrow> None | Some inner \<Rightarrow> map_of inner t)"

definition store2 ::
  "'a \<Rightarrow> 'b \<Rightarrow> 'v \<Rightarrow> ('a \<times> ('b \<times> 'v) list) list \<Rightarrow> ('a \<times> ('b \<times> 'v) list) list" where
  "store2 c t v m =
     AList.update c (AList.update t v (case map_of m c of None \<Rightarrow> [] | Some inner \<Rightarrow> inner)) m"

definition erase2 ::
  "'a \<Rightarrow> 'b \<Rightarrow> ('a \<times> ('b \<times> 'v) list) list \<Rightarrow> ('a \<times> ('b \<times> 'v) list) list" where
  "erase2 c t m =
     (let inner = AList.delete t (case map_of m c of None \<Rightarrow> [] | Some inner \<Rightarrow> inner)
      in if inner = [] then AList.delete c m else AList.update c inner m)"

definition size2 :: "('a \<times> ('b \<times> 'v) list) list \<Rightarrow> int" where
  "size2 m = sum_list (map (\<lambda>(c, inner). int (length inner)) m)"

section \<open>Vegetation: the placement record and its decoder\<close>

text \<open>
  \<^verbatim>\<open>struct PlacementData\<close> (native_vegetation_dispatcher.h, lines 19-28): twelve 4-byte
  fields, 48 bytes, no implicit padding. The floats are kept as bit patterns.
\<close>

record PlacementData =
  pd_position :: "u32 \<times> u32 \<times> u32"
  pd_padding1 :: u32
  pd_normal :: "u32 \<times> u32 \<times> u32"
  pd_padding2 :: u32
  pd_variant_index :: u32
  pd_instance_seed :: u32
  pd_scale :: u32
  pd_rotation_y :: u32

text \<open>The \<^verbatim>\<open>Dictionary\<close> that \<^verbatim>\<open>decode_placements\<close> builds for one record: six entries.\<close>

record placement =
  position :: "u32 \<times> u32 \<times> u32"
  normal :: "u32 \<times> u32 \<times> u32"
  variant_index :: u32
  instance_seed :: u32
  scale_f :: u32
  rotation_y :: u32

definition MAX_PLACEMENTS :: nat where
  "MAX_PLACEMENTS = 4096"

definition stride :: nat where
  "stride = 48"

text \<open>\<^verbatim>\<open>memcpy\<close> of four bytes into a \<^verbatim>\<open>uint32_t\<close> or \<^verbatim>\<open>float\<close> on a little-endian host.\<close>

definition read_u32 :: "byte list \<Rightarrow> nat \<Rightarrow> u32" where
  "read_u32 bs off =
     ucast (bs ! off) OR push_bit 8 (ucast (bs ! (off + 1)))
       OR push_bit 16 (ucast (bs ! (off + 2))) OR push_bit 24 (ucast (bs ! (off + 3)))"

text \<open>\<^verbatim>\<open>memcpy(&pd, data + offset, stride)\<close>: the struct is read field by field.\<close>

definition read_PlacementData :: "byte list \<Rightarrow> nat \<Rightarrow> PlacementData" where
  "read_PlacementData bs off =
     \<lparr> pd_position = (read_u32 bs off, read_u32 bs (off + 4), read_u32 bs (off + 8)),
       pd_padding1 = read_u32 bs (off + 12),
       pd_normal = (read_u32 bs (off + 16), read_u32 bs (off + 20), read_u32 bs (off + 24)),
       pd_padding2 = read_u32 bs (off + 28),
       pd_variant_index = read_u32 bs (off + 32),
       pd_instance_seed = read_u32 bs (off + 36),
       pd_scale = read_u32 bs (off + 40),
       pd_rotation_y = read_u32 bs (off + 44) \<rparr>"

definition to_placement :: "PlacementData \<Rightarrow> placement" where
  "to_placement pd =
     \<lparr> position = pd_position pd, normal = pd_normal pd,
       variant_index = pd_variant_index pd, instance_seed = pd_instance_seed pd,
       scale_f = pd_scale pd, rotation_y = pd_rotation_y pd \<rparr>"

text \<open>
  The loop of \<^verbatim>\<open>decode_placements\<close> (lines 273-291): \<^verbatim>\<open>n\<close> iterations remain, \<^verbatim>\<open>off\<close> is the
  running offset; the loop breaks when a whole record no longer fits.
\<close>

fun decode_loop :: "byte list \<Rightarrow> nat \<Rightarrow> nat \<Rightarrow> placement list" where
  "decode_loop bs 0 off = []"
| "decode_loop bs (Suc n) off =
     (if off + stride > length bs then []
      else to_placement (read_PlacementData bs off) # decode_loop bs n (off + stride))"

definition decode_placements :: "byte list \<Rightarrow> placement list" where
  "decode_placements buffer_data =
     (if length buffer_data < 4 then []
      else
        let placement_count = read_u32 buffer_data 0;
            placement_count = (if placement_count > word_of_nat MAX_PLACEMENTS
                               then word_of_nat MAX_PLACEMENTS else placement_count)
        in decode_loop buffer_data (unat placement_count) 4)"

text \<open>
  The writer of the buffer is the compute shader, which is not part of the C++ sources. The
  layout it has to produce is the memory image of \<^verbatim>\<open>PlacementData\<close>: a 4-byte count, then
  the records at a stride of 48 bytes. \<open>encode_placements\<close> is that layout, written from the
  struct declaration.
\<close>

definition bytes_of_u32 :: "u32 \<Rightarrow> byte list" where
  "bytes_of_u32 w = [ucast w, ucast (drop_bit 8 w), ucast (drop_bit 16 w), ucast (drop_bit 24 w)]"



section \<open>Vegetation: the placement cache and its LRU list\<close>

text \<open>
  The state of \<^verbatim>\<open>NativeVegetationDispatcher\<close>. \<open>lru_map\<close> maps a key to the iterator of
  its node in \<open>lru_list\<close>; the model keeps its key set, and erasing through the iterator is
  the removal of the key's node. \<open>terrain_dispatcher\<close> is the object whose
  \<^verbatim>\<open>get_sdf_texture_for_chunk\<close> is called: \<open>None\<close> for the null pointer. \<open>shader_source_ok\<close>
  and \<open>transform_source_ok\<close> say whether the shader file can be opened and compiles. The
  per-type timing dictionary (floating-point statistics) is left out.
\<close>

type_synonym ChunkTypePair = "Vector3i \<times> int"

record vegetation =
  veg_rd :: gpu_env
  veg_rd_present :: bool
  shader_source_ok :: bool
  transform_source_ok :: bool
  shader :: RID
  pipeline :: RID
  transform_shader :: RID
  transform_pipeline :: RID
  cached_sampler_linear :: RID
  placement_cache :: "(Vector3i \<times> (int \<times> placement list) list) list"
  buffer_cache :: "(Vector3i \<times> (int \<times> RID) list) list"
  transform_buffer_cache :: "(Vector3i \<times> (int \<times> RID) list) list"
  lru_list :: "ChunkTypePair list"
  lru_map :: "ChunkTypePair set"
  total_placement_time_us :: u64
  last_placement_time_us :: u64
  placement_call_count :: int
  max_cache_entries :: int
  veg_gpu_initialized :: bool
  terrain_dispatcher :: "(Vector3i \<Rightarrow> RID) option"

definition veg_create :: "vegetation \<Rightarrow> RID \<times> vegetation" where
  "veg_create s = (case rd_create (veg_rd s) of (r, e) \<Rightarrow> (r, s\<lparr>veg_rd := e\<rparr>))"

definition veg_free :: "RID \<Rightarrow> vegetation \<Rightarrow> vegetation" where
  "veg_free r s = s\<lparr>veg_rd := free_rid r (veg_rd s)\<rparr>"

text \<open>\<^verbatim>\<open>initialize_gpu\<close> (lines 50-147).\<close>

definition veg_initialize_gpu :: "vegetation \<Rightarrow> bool \<times> vegetation" where
  "veg_initialize_gpu s =
     (if veg_gpu_initialized s then (True, s)
      else if \<not> veg_rd_present s then (False, s)
      else if \<not> shader_source_ok s then (False, s)
      else
        case veg_create s of (sh, s) \<Rightarrow>
        let s = s\<lparr>shader := sh\<rparr> in
        if \<not> is_valid sh then (False, s)
        else
          case veg_create s of (pl, s) \<Rightarrow>
          let s = s\<lparr>pipeline := pl\<rparr> in
          if \<not> is_valid pl then (False, (veg_free sh s)\<lparr>shader := 0\<rparr>)
          else
            case veg_create s of (sm, s) \<Rightarrow>
            let s = s\<lparr>cached_sampler_linear := sm\<rparr>;
                s = (if transform_source_ok s then
                       case veg_create s of (tsh, s) \<Rightarrow>
                       let s = s\<lparr>transform_shader := tsh\<rparr> in
                       if is_valid tsh then
                         case veg_create s of (tpl, s) \<Rightarrow> s\<lparr>transform_pipeline := tpl\<rparr>
                       else s
                     else s)
            in (True, s\<lparr>veg_gpu_initialized := True\<rparr>))"

text \<open>\<^verbatim>\<open>update_lru_access\<close> (lines 200-210).\<close>

definition update_lru_access :: "Vector3i \<Rightarrow> int \<Rightarrow> vegetation \<Rightarrow> vegetation" where
  "update_lru_access chunk ty s =
     (let key = (chunk, ty);
          l = (if key \<in> lru_map s then remove1 key (lru_list s) else lru_list s)
      in s\<lparr>lru_list := key # l, lru_map := insert key (lru_map s)\<rparr>)"

text \<open>
  The second half of \<^verbatim>\<open>evict_lru_entry\<close> (lines 226-252), once for \<^verbatim>\<open>buffer_cache\<close> and once
  for \<^verbatim>\<open>transform_buffer_cache\<close>: the handles to free and the map without the entry.
\<close>

definition release_entry ::
  "Vector3i \<Rightarrow> int \<Rightarrow> (Vector3i \<times> (int \<times> RID) list) list
     \<Rightarrow> RID list \<times> (Vector3i \<times> (int \<times> RID) list) list" where
  "release_entry chunk ty m =
     (case map_of m chunk of
        None \<Rightarrow> ([], m)
      | Some inner \<Rightarrow>
          (case map_of inner ty of
             None \<Rightarrow> ([], m)
           | Some r \<Rightarrow> (if is_valid r then [r] else [], erase2 chunk ty m)))"

text \<open>\<^verbatim>\<open>evict_lru_entry\<close> (lines 212-253).\<close>

definition evict_lru_entry :: "vegetation \<Rightarrow> vegetation" where
  "evict_lru_entry s =
     (if lru_list s = [] then s
      else
        case last (lru_list s) of (chunk, ty) \<Rightarrow>
        case release_entry chunk ty (buffer_cache s) of (freed_b, bc) \<Rightarrow>
        case release_entry chunk ty (transform_buffer_cache s) of (freed_t, tc) \<Rightarrow>
          s\<lparr>lru_list := butlast (lru_list s),
            lru_map := lru_map s - {(chunk, ty)},
            placement_cache := erase2 chunk ty (placement_cache s),
            buffer_cache := bc,
            transform_buffer_cache := tc,
            veg_rd := fold free_rid (freed_b @ freed_t) (veg_rd s)\<rparr>)"

definition get_cache_size :: "vegetation \<Rightarrow> int" where
  "get_cache_size s = size2 (placement_cache s)"

definition is_chunk_ready :: "vegetation \<Rightarrow> Vector3i \<Rightarrow> int \<Rightarrow> bool" where
  "is_chunk_ready s chunk_origin veg_type = (find2 (placement_cache s) chunk_origin veg_type \<noteq> None)"

definition get_placement_buffer_rid :: "vegetation \<Rightarrow> Vector3i \<Rightarrow> int \<Rightarrow> RID" where
  "get_placement_buffer_rid s chunk_origin veg_type =
     (case find2 (buffer_cache s) chunk_origin veg_type of Some r \<Rightarrow> r | None \<Rightarrow> 0)"

text \<open>
  \<^verbatim>\<open>generate_placements\<close> (lines 296-509). Of its arguments, \<open>density\<close>, \<open>grid_spacing\<close>,
  \<open>noise_frequency\<close>, \<open>slope_max\<close>, \<open>height_range\<close> and \<open>world_seed\<close> only fill the push
  constants of the shader; the model keeps the arguments that decide control flow and
  state. \<open>elapsed_us\<close> is the time the clock measures around submit and sync.
\<close>

definition generate_placements ::
  "vegetation \<Rightarrow> Vector3i \<Rightarrow> int \<Rightarrow> RID \<Rightarrow> bool \<Rightarrow> u64 \<Rightarrow> placement list \<times> vegetation" where
  "generate_placements s0 chunk_origin veg_type biome_map_texture cpu_fallback elapsed_us =
     (case (if veg_gpu_initialized s0 then (True, s0) else veg_initialize_gpu s0) of (ok, s) \<Rightarrow>
      if \<not> ok then ([], s)
      else
        case find2 (placement_cache s) chunk_origin veg_type of
          Some cached \<Rightarrow> (cached, update_lru_access chunk_origin veg_type s)
        | None \<Rightarrow>
            if \<not> is_valid biome_map_texture then ([], s)
            else
              let terrain_sdf_texture =
                    (case terrain_dispatcher s of None \<Rightarrow> 0 | Some f \<Rightarrow> f chunk_origin)
              in
              if \<not> is_valid terrain_sdf_texture then ([], s)
              else
                case veg_create s of (storage_buffer, s) \<Rightarrow>
                case veg_create s of (uniform_set, s) \<Rightarrow>
                if \<not> is_valid uniform_set then ([], veg_free storage_buffer s)
                else
                  let s = s\<lparr>veg_rd := submit (PlacementJob chunk_origin veg_type) (veg_rd s)\<rparr>;
                      s = s\<lparr>last_placement_time_us := elapsed_us,
                            total_placement_time_us := total_placement_time_us s + elapsed_us,
                            placement_call_count := placement_call_count s + 1\<rparr>;
                      s = s\<lparr>buffer_cache :=
                              store2 chunk_origin veg_type storage_buffer (buffer_cache s)\<rparr>;
                      placements =
                        (if cpu_fallback
                         then decode_placements (contents (veg_rd s) storage_buffer) else []);
                      s = s\<lparr>placement_cache :=
                              store2 chunk_origin veg_type placements (placement_cache s)\<rparr>;
                      s = update_lru_access chunk_origin veg_type s;
                      cache_size = size2 (placement_cache s);
                      s = (evict_lru_entry ^^ nat (cache_size - max_cache_entries s)) s;
                      s = veg_free uniform_set s
                  in (placements, s))"

text \<open>
  \<^verbatim>\<open>get_transform_buffer_rid\<close> (lines 609-772). The bytes written into the new buffer (zeros
  on the GPU path, the matrices on the CPU path) do not reach the model's state.
\<close>

definition get_transform_buffer_rid :: "vegetation \<Rightarrow> Vector3i \<Rightarrow> int \<Rightarrow> RID \<times> vegetation" where
  "get_transform_buffer_rid s chunk_origin veg_type =
     (case find2 (transform_buffer_cache s) chunk_origin veg_type of
        Some buffer \<Rightarrow> (buffer, s)
      | None \<Rightarrow>
          let placement_buffer = get_placement_buffer_rid s chunk_origin veg_type in
          if \<not> is_valid placement_buffer then (0, s)
          else
            let count_data = buffer_get_data (veg_rd s) placement_buffer 0 4 in
            if length count_data < 4 then (0, s)
            else
              let placement_count = read_u32 count_data 0 in
              if placement_count = 0 \<or> placement_count > word_of_nat MAX_PLACEMENTS then (0, s)
              else if is_valid (transform_pipeline s) then
                case veg_create s of (transform_buffer, s) \<Rightarrow>
                if \<not> is_valid transform_buffer then (0, s)
                else
                  case veg_create s of (uniform_set, s) \<Rightarrow>
                  if \<not> is_valid uniform_set then (0, veg_free transform_buffer s)
                  else
                    let s = s\<lparr>veg_rd := submit (TransformJob chunk_origin veg_type) (veg_rd s)\<rparr>;
                        s = veg_free uniform_set s;
                        s = s\<lparr>transform_buffer_cache :=
                                store2 chunk_origin veg_type transform_buffer
                                  (transform_buffer_cache s)\<rparr>
                    in (transform_buffer, s)
              else
                let placement_data_size = unat placement_count * stride;
                    placement_data =
                      buffer_get_data (veg_rd s) placement_buffer 4 placement_data_size
                in
                if length placement_data < placement_data_size then (0, s)
                else
                  case veg_create s of (transform_buffer, s) \<Rightarrow>
                  if \<not> is_valid transform_buffer then (0, s)
                  else
                    (transform_buffer,
                     s\<lparr>transform_buffer_cache :=
                         store2 chunk_origin veg_type transform_buffer
                           (transform_buffer_cache s)\<rparr>))"

section \<open>Terrain: data\<close>

text \<open>
  A \<^verbatim>\<open>Dictionary\<close> with string keys holds handles, flags and byte arrays. \<^verbatim>\<open>sdf_cache\<close> is a
  \<^verbatim>\<open>Dictionary\<close> whose keys are \<^verbatim>\<open>Variant\<close>s of two kinds: the background thread stores under
  the \<^verbatim>\<open>Vector3i\<close> origin (\<open>VecKey\<close>), \<^verbatim>\<open>generate_block\<close> looks up and stores under the
  \<^verbatim>\<open>String\<close> \<^verbatim>\<open>"{x}_{y}_{z}_{lod}"\<close> (\<open>StrKey\<close>: the string is determined by the four
  integers and determines them). Keys of different kinds are never equal.
\<close>

datatype Variant = VNil | VRid RID | VBool bool | VBytes "byte list"

type_synonym Dictionary = "(string \<times> Variant) list"

datatype cache_key = VecKey Vector3i | StrKey Vector3i int

definition has :: "Dictionary \<Rightarrow> string \<Rightarrow> bool" where
  "has d k = (map_of d k \<noteq> None)"

definition dict_get :: "Dictionary \<Rightarrow> string \<Rightarrow> Variant" where
  "dict_get d k = (case map_of d k of Some v \<Rightarrow> v | None \<Rightarrow> VNil)"

definition as_rid :: "Variant \<Rightarrow> RID" where
  "as_rid v = (case v of VRid r \<Rightarrow> r | _ \<Rightarrow> 0)"

definition as_bool :: "Variant \<Rightarrow> bool" where
  "as_bool v = (case v of VBool b \<Rightarrow> b | _ \<Rightarrow> False)"

definition as_bytes :: "Variant \<Rightarrow> byte list" where
  "as_bytes v = (case v of VBytes b \<Rightarrow> b | _ \<Rightarrow> [])"

text \<open>\<^verbatim>\<open>struct ChunkRequest\<close> and its \<^verbatim>\<open>operator<\<close> (native_terrain_generator.h, lines 72-81).\<close>

record ChunkRequest =
  origin :: Vector3i
  req_lod :: int
  priority :: real
  request_time_us :: u64

definition ChunkRequest_less :: "ChunkRequest \<Rightarrow> ChunkRequest \<Rightarrow> bool" where
  "ChunkRequest_less a other = (priority a > priority other)"

text \<open>\<^verbatim>\<open>struct ChunkGPUState\<close> (lines 83-95).\<close>

record ChunkGPUState =
  sdf_texture :: RID
  material_texture :: RID
  fence :: RID
  dispatch_time_us :: u64
  completion_time_us :: u64
  gpu_complete :: bool
  cpu_readback_complete :: bool
  physics_needed :: bool
  lod :: int
  sdf_data :: "byte list"
  mat_data :: "byte list"

text \<open>
  The members of \<^verbatim>\<open>NativeTerrainGenerator\<close>. \<open>device_available\<close>, \<open>biome_source_ok\<close> and
  \<open>sdf_source_ok\<close> stand for the engine's answers during \<^verbatim>\<open>initialize_gpu\<close> (a rendering
  device can be created; the shader file exists, is not empty and compiles). The members
  that only fill push constants (\<^verbatim>\<open>world_seed\<close>, \<^verbatim>\<open>world_size\<close>, \<^verbatim>\<open>sea_level\<close>, \<^verbatim>\<open>blend_dist\<close>)
  and the status message are left out.
\<close>

record terrain =
  rd :: gpu_env
  rd_present :: bool
  device_available :: bool
  biome_source_ok :: bool
  sdf_source_ok :: bool
  biome_map_shader :: RID
  biome_map_pipeline :: RID
  biome_map_texture :: RID
  sdf_shader :: RID
  sdf_pipeline :: RID
  cached_sampler :: RID
  sdf_cache :: "(cache_key \<times> Dictionary) list"
  chunk_size :: int
  gpu_initialized :: bool
  chunk_request_queue :: "ChunkRequest list"
  chunk_gpu_states :: "(Vector3i \<times> ChunkGPUState) list"
  player_position :: Vector3
  frame_gpu_budget_us :: u64
  current_frame_gpu_time_us :: u64
  chunks_dispatched_this_frame :: int
  chunks_completed_this_frame :: int
  total_gpu_time_us :: u64
  total_chunks_generated :: int

text \<open>
  The voxel buffer of the caller, as far as \<^verbatim>\<open>generate_block\<close> writes it: the SDF channel
  (bit patterns of the floats) and the indices channel.
\<close>

record VoxelBuffer =
  sdf_channel :: "Vector3i \<Rightarrow> u32"
  indices_channel :: "Vector3i \<Rightarrow> u32"

section \<open>Terrain: the request queue\<close>

text \<open>
  \<^verbatim>\<open>std::priority_queue<ChunkRequest>\<close> is modelled by its contract: \<^verbatim>\<open>top()\<close> is an element
  that is not less than any other under \<^verbatim>\<open>operator<\<close>, that is, one of least \<open>priority\<close>
  value. The list holds the elements in insertion order; among several elements of least
  priority \<open>pq_top\<close> takes the first in the list. That choice among ties is the model's: the
  heap inside the standard container makes its own.
\<close>

fun pq_best :: "ChunkRequest \<Rightarrow> ChunkRequest list \<Rightarrow> ChunkRequest" where
  "pq_best best [] = best"
| "pq_best best (x # xs) = pq_best (if ChunkRequest_less best x then x else best) xs"

definition pq_top :: "ChunkRequest list \<Rightarrow> ChunkRequest" where
  "pq_top q = pq_best (hd q) (tl q)"

definition pq_pop :: "ChunkRequest list \<Rightarrow> ChunkRequest list" where
  "pq_pop q = remove1 (pq_top q) q"

definition pq_push :: "ChunkRequest \<Rightarrow> ChunkRequest list \<Rightarrow> ChunkRequest list" where
  "pq_push r q = q @ [r]"

lemma pq_best_in: "pq_best b xs \<in> set (b # xs)"
  by (induction xs arbitrary: b) auto

lemma pq_top_in: "q \<noteq> [] \<Longrightarrow> pq_top q \<in> set q"
  unfolding pq_top_def using pq_best_in [of "hd q" "tl q"] by simp

lemma length_pq_pop: "q \<noteq> [] \<Longrightarrow> length (pq_pop q) < length q"
  using pq_top_in [of q] by (simp add: pq_pop_def length_remove1)

text \<open>Draining the queue: \<^verbatim>\<open>top()\<close> and \<^verbatim>\<open>pop()\<close> until it is empty.\<close>

function drain :: "ChunkRequest list \<Rightarrow> ChunkRequest list" where
  "drain q = (if q = [] then [] else pq_top q # drain (pq_pop q))"
  by pat_completeness auto
termination
  by (relation "measure length") (auto simp add: length_pq_pop)

text \<open>Integer division of C++ (truncation towards zero) and \<^verbatim>\<open>Vector3::distance_to\<close>.\<close>

definition cpp_div :: "int \<Rightarrow> int \<Rightarrow> int" where
  "cpp_div a b = sgn a * sgn b * (\<bar>a\<bar> div \<bar>b\<bar>)"

definition distance_to :: "Vector3 \<Rightarrow> Vector3 \<Rightarrow> real" where
  "distance_to a b =
     (case a of (ax, ay, az) \<Rightarrow> case b of (bx, by, bz) \<Rightarrow>
        sqrt ((bx - ax)\<^sup>2 + (by - ay)\<^sup>2 + (bz - az)\<^sup>2))"

definition chunk_center :: "terrain \<Rightarrow> Vector3i \<Rightarrow> Vector3" where
  "chunk_center s org =
     (case org of (x, y, z) \<Rightarrow>
        (real_of_int (x + cpp_div (chunk_size s) 2), real_of_int (y + cpp_div (chunk_size s) 2),
         real_of_int (z + cpp_div (chunk_size s) 2)))"

text \<open>
  \<^verbatim>\<open>enqueue_chunk_request\<close> (lines 805-827). \<open>now\<close> is the value of the microsecond clock.
\<close>

definition enqueue_chunk_request ::
  "terrain \<Rightarrow> Vector3i \<Rightarrow> int \<Rightarrow> Vector3 \<Rightarrow> u64 \<Rightarrow> terrain" where
  "enqueue_chunk_request s org lod_arg player_pos now =
     (let s = (if player_pos \<noteq> (0, 0, 0) then s\<lparr>player_position := player_pos\<rparr> else s);
          distance = distance_to (chunk_center s org) (player_position s);
          request = \<lparr> origin = org, req_lod = lod_arg, priority = distance,
                      request_time_us = now \<rparr>
      in s\<lparr>chunk_request_queue := pq_push request (chunk_request_queue s)\<rparr>)"

section \<open>Terrain: GPU initialisation and dispatch\<close>

definition terr_create :: "terrain \<Rightarrow> RID \<times> terrain" where
  "terr_create s = (case rd_create (rd s) of (r, e) \<Rightarrow> (r, s\<lparr>rd := e\<rparr>))"

definition terr_free :: "RID \<Rightarrow> terrain \<Rightarrow> terrain" where
  "terr_free r s = s\<lparr>rd := free_rid r (rd s)\<rparr>"

text \<open>\<^verbatim>\<open>compile_biome_map_shader\<close> and \<^verbatim>\<open>compile_sdf_shader\<close> (lines 237-329).\<close>

definition compile_biome_map_shader :: "terrain \<Rightarrow> bool \<times> terrain" where
  "compile_biome_map_shader s =
     (if \<not> biome_source_ok s then (False, s)
      else
        case terr_create s of (sh, s) \<Rightarrow>
        let s = s\<lparr>biome_map_shader := sh\<rparr> in
        if \<not> is_valid sh then (False, s)
        else
          case terr_create s of (pl, s) \<Rightarrow>
          let s = s\<lparr>biome_map_pipeline := pl\<rparr> in
          if \<not> is_valid pl then (False, s) else (True, s))"

definition compile_sdf_shader :: "terrain \<Rightarrow> bool \<times> terrain" where
  "compile_sdf_shader s =
     (if \<not> sdf_source_ok s then (False, s)
      else
        case terr_create s of (sh, s) \<Rightarrow>
        let s = s\<lparr>sdf_shader := sh\<rparr> in
        if \<not> is_valid sh then (False, s)
        else
          case terr_create s of (pl, s) \<Rightarrow>
          let s = s\<lparr>sdf_pipeline := pl\<rparr> in
          if \<not> is_valid pl then (False, s) else (True, s))"

text \<open>\<^verbatim>\<open>initialize_gpu\<close> (lines 52-85).\<close>

definition initialize_gpu :: "terrain \<Rightarrow> bool \<times> terrain" where
  "initialize_gpu s =
     (if gpu_initialized s then (True, s)
      else if \<not> device_available s then (False, s)
      else
        let s = s\<lparr>rd_present := True\<rparr> in
        case compile_biome_map_shader s of (ok, s) \<Rightarrow>
        if \<not> ok then (False, s)
        else
          case compile_sdf_shader s of (ok, s) \<Rightarrow>
          if \<not> ok then (False, s) else (True, s\<lparr>gpu_initialized := True\<rparr>))"

text \<open>\<^verbatim>\<open>generate_biome_map_if_needed\<close> (lines 331-408).\<close>

definition generate_biome_map_if_needed :: "terrain \<Rightarrow> terrain" where
  "generate_biome_map_if_needed s =
     (if is_valid (biome_map_texture s) then s
      else if \<not> gpu_initialized s \<or> \<not> rd_present s \<or> \<not> is_valid (biome_map_pipeline s) then s
      else
        case terr_create s of (tex, s) \<Rightarrow>
        let s = s\<lparr>biome_map_texture := tex\<rparr> in
        if \<not> is_valid tex then s
        else
          case terr_create s of (uniform_set, s) \<Rightarrow>
          if \<not> is_valid uniform_set then (terr_free tex s)\<lparr>biome_map_texture := 0\<rparr>
          else
            let s = s\<lparr>rd := submit BiomeMapJob (rd s)\<rparr>
            in terr_free uniform_set s)"

text \<open>\<^verbatim>\<open>get_or_create_sampler\<close> (lines 194-208), called through \<^verbatim>\<open>create_sampler_uniform\<close>.\<close>

definition get_or_create_sampler :: "terrain \<Rightarrow> RID \<times> terrain" where
  "get_or_create_sampler s =
     (if is_valid (cached_sampler s) then (cached_sampler s, s)
      else case terr_create s of (r, s) \<Rightarrow> (r, s\<lparr>cached_sampler := r\<rparr>))"

text \<open>
  \<^verbatim>\<open>generate_chunk_sdf\<close> (lines 410-516). \<open>now\<close> is the clock at the time the in-flight
  record is written.
\<close>

definition generate_chunk_sdf :: "terrain \<Rightarrow> Vector3i \<Rightarrow> u64 \<Rightarrow> Dictionary \<times> terrain" where
  "generate_chunk_sdf s chunk_origin now =
     (if \<not> gpu_initialized s \<or> \<not> rd_present s \<or> \<not> is_valid (sdf_pipeline s) then ([], s)
      else
        let s = generate_biome_map_if_needed s in
        case map_of (sdf_cache s) (VecKey chunk_origin) of
          Some cached \<Rightarrow> (cached, s)
        | None \<Rightarrow>
            case terr_create s of (sdf_tex, s) \<Rightarrow>
            if \<not> is_valid sdf_tex then ([], s)
            else
              case terr_create s of (material_tex, s) \<Rightarrow>
              if \<not> is_valid material_tex then ([], terr_free sdf_tex s)
              else if \<not> is_valid (biome_map_texture s) then ([], s)
              else
                case get_or_create_sampler s of (sampler, s) \<Rightarrow>
                case terr_create s of (uniform_set, s) \<Rightarrow>
                if \<not> is_valid uniform_set
                then ([], terr_free material_tex (terr_free sdf_tex s))
                else
                  let s = s\<lparr>rd := submit (ChunkJob chunk_origin) (rd s)\<rparr>;
                      s = terr_free uniform_set s;
                      state = \<lparr> sdf_texture = sdf_tex, material_texture = material_tex,
                                fence = 0, dispatch_time_us = now, completion_time_us = 0,
                                gpu_complete = False, cpu_readback_complete = False,
                                physics_needed = False, lod = 0, sdf_data = [],
                                mat_data = [] \<rparr>;
                      s = s\<lparr>chunk_gpu_states :=
                              AList.update chunk_origin state (chunk_gpu_states s)\<rparr>
                  in ([(''sdf'', VRid sdf_tex), (''material'', VRid material_tex),
                       (''ready'', VBool False)], s))"

text \<open>
  \<^verbatim>\<open>dispatch_chunk_async\<close> (lines 888-901): the call of \<^verbatim>\<open>generate_chunk_sdf\<close>, then a second
  critical section that writes \<^verbatim>\<open>lod\<close> and \<^verbatim>\<open>physics_needed\<close>.
\<close>

definition update_lod_flags :: "terrain \<Rightarrow> Vector3i \<Rightarrow> int \<Rightarrow> terrain" where
  "update_lod_flags s org lod_arg =
     (case map_of (chunk_gpu_states s) org of
        None \<Rightarrow> s
      | Some st \<Rightarrow>
          s\<lparr>chunk_gpu_states :=
              AList.update org (st\<lparr>lod := lod_arg, physics_needed := (lod_arg = 0)\<rparr>)
                (chunk_gpu_states s)\<rparr>)"

definition dispatch_chunk_async :: "terrain \<Rightarrow> Vector3i \<Rightarrow> int \<Rightarrow> u64 \<Rightarrow> terrain" where
  "dispatch_chunk_async s org lod_arg now =
     update_lod_flags (snd (generate_chunk_sdf s org now)) org lod_arg"

section \<open>Terrain: the per-frame tick\<close>

text \<open>\<^verbatim>\<open>poll_gpu_completion\<close> (lines 789-803).\<close>

definition poll_gpu_completion :: "terrain \<Rightarrow> Vector3i \<Rightarrow> bool" where
  "poll_gpu_completion s org =
     (case map_of (chunk_gpu_states s) org of None \<Rightarrow> False | Some st \<Rightarrow> gpu_complete st)"

text \<open>The first loop of \<^verbatim>\<open>process_chunk_queue\<close> (lines 842-853), one iteration.\<close>

definition fold_measured_time :: "Vector3i \<Rightarrow> terrain \<Rightarrow> terrain" where
  "fold_measured_time org s =
     (if poll_gpu_completion s org then
        (case map_of (chunk_gpu_states s) org of
           Some st \<Rightarrow>
             if completion_time_us st > 0
             then s\<lparr>current_frame_gpu_time_us :=
                      current_frame_gpu_time_us s + (completion_time_us st - dispatch_time_us st)\<rparr>
             else s
         | None \<Rightarrow> s)
      else s)"

lemma terr_create_queue: "chunk_request_queue (snd (terr_create s)) = chunk_request_queue s"
  by (simp add: terr_create_def case_prod_beta)

lemma generate_biome_map_queue:
  "chunk_request_queue (generate_biome_map_if_needed s) = chunk_request_queue s"
  by (simp add: generate_biome_map_if_needed_def Let_def case_prod_beta terr_create_queue
      terr_free_def)

lemma generate_chunk_sdf_queue:
  "chunk_request_queue (snd (generate_chunk_sdf s org now)) = chunk_request_queue s"
  by (simp add: generate_chunk_sdf_def Let_def case_prod_beta terr_create_queue terr_free_def
      get_or_create_sampler_def generate_biome_map_queue split: option.splits)

lemma dispatch_chunk_async_queue:
  "chunk_request_queue (dispatch_chunk_async s org l now) = chunk_request_queue s"
  by (simp add: dispatch_chunk_async_def update_lod_flags_def generate_chunk_sdf_queue
      split: option.splits)

text \<open>
  The second loop of \<^verbatim>\<open>process_chunk_queue\<close> (lines 858-883). It ends because every
  iteration pops one request and a dispatch does not touch the queue.
\<close>

function dispatch_loop :: "u64 \<Rightarrow> terrain \<Rightarrow> terrain" where
  "dispatch_loop now s =
     (if chunk_request_queue s = []
         \<or> \<not> current_frame_gpu_time_us s < frame_gpu_budget_us s then s
      else
        let request = pq_top (chunk_request_queue s);
            s1 = s\<lparr>chunk_request_queue := pq_pop (chunk_request_queue s)\<rparr>;
            in_cache = (map_of (sdf_cache s1) (VecKey (origin request)) \<noteq> None)
        in
        if in_cache \<or> map_of (chunk_gpu_states s1) (origin request) \<noteq> None
        then dispatch_loop now s1
        else
          let s2 = dispatch_chunk_async s1 (origin request) (req_lod request) now;
              s3 = s2\<lparr>chunks_dispatched_this_frame := chunks_dispatched_this_frame s2 + 1\<rparr>;
              avg_measured_time =
                (if total_chunks_generated s3 > 0
                 then total_gpu_time_us s3 div word_of_int (total_chunks_generated s3)
                 else 2000)
          in dispatch_loop now
               (s3\<lparr>current_frame_gpu_time_us :=
                    current_frame_gpu_time_us s3 + avg_measured_time\<rparr>))"
  by pat_completeness auto
termination
  by (relation "measure (\<lambda>(now, s). length (chunk_request_queue s))")
    (auto simp add: length_pq_pop dispatch_chunk_async_queue)

text \<open>\<^verbatim>\<open>process_chunk_queue\<close> (lines 829-886); the argument \<^verbatim>\<open>delta\<close> is not used by the code.\<close>

definition process_chunk_queue :: "terrain \<Rightarrow> u64 \<Rightarrow> terrain" where
  "process_chunk_queue s now =
     (let s = s\<lparr>current_frame_gpu_time_us := 0\<rparr>;
          s = s\<lparr>chunks_dispatched_this_frame := 0, chunks_completed_this_frame := 0\<rparr>;
          to_check = map fst (chunk_gpu_states s);
          s = fold fold_measured_time to_check s
      in dispatch_loop now s)"

text \<open>
  The same loop seen from the order in which requests are handled: \<open>handle_request\<close> is
  the body of one iteration after the pop (the skip test, the dispatch and the accounting),
  and \<open>handle_in_order\<close> runs that body over a given sequence of requests, stopping when
  the budget is used up.
\<close>

definition handle_request :: "u64 \<Rightarrow> ChunkRequest \<Rightarrow> terrain \<Rightarrow> terrain" where
  "handle_request now request s1 =
     (if map_of (sdf_cache s1) (VecKey (origin request)) \<noteq> None
         \<or> map_of (chunk_gpu_states s1) (origin request) \<noteq> None
      then s1
      else
        let s2 = dispatch_chunk_async s1 (origin request) (req_lod request) now;
            s3 = s2\<lparr>chunks_dispatched_this_frame := chunks_dispatched_this_frame s2 + 1\<rparr>;
            avg_measured_time =
              (if total_chunks_generated s3 > 0
               then total_gpu_time_us s3 div word_of_int (total_chunks_generated s3)
               else 2000)
        in s3\<lparr>current_frame_gpu_time_us := current_frame_gpu_time_us s3 + avg_measured_time\<rparr>)"

fun handle_in_order :: "u64 \<Rightarrow> ChunkRequest list \<Rightarrow> terrain \<Rightarrow> terrain" where
  "handle_in_order now [] s = s"
| "handle_in_order now (r # rs) s =
     (if \<not> current_frame_gpu_time_us s < frame_gpu_budget_us s then s
      else handle_in_order now rs
             (handle_request now r (s\<lparr>chunk_request_queue := pq_pop (chunk_request_queue s)\<rparr>)))"


section \<open>Terrain: the background readback loop\<close>

text \<open>
  One iteration of \<^verbatim>\<open>readback_worker_loop\<close> (lines 913-1013), cut where the loop takes and
  releases \<^verbatim>\<open>queue_mutex\<close>: the snapshot (lines 920-930), the marking after the barrier
  (lines 938-952), and per chunk the reading of the flags (lines 957-968), the readback
  outside the lock (lines 974-977) and the migration into the cache (lines 980-1004).
\<close>

definition worker_snapshot :: "terrain \<Rightarrow> Vector3i list \<times> Vector3i list" where
  "worker_snapshot s =
     (map fst (filter (\<lambda>(k, st). \<not> gpu_complete st) (chunk_gpu_states s)),
      map fst (filter (\<lambda>(k, st). gpu_complete st \<and> \<not> cpu_readback_complete st)
                 (chunk_gpu_states s)))"

definition mark_complete_one ::
  "u64 \<Rightarrow> Vector3i \<Rightarrow> terrain \<times> Vector3i list \<Rightarrow> terrain \<times> Vector3i list" where
  "mark_complete_one now org acc =
     (case acc of (s, to_readback) \<Rightarrow>
      case map_of (chunk_gpu_states s) org of
        None \<Rightarrow> (s, to_readback)
      | Some st \<Rightarrow>
          if gpu_complete st then (s, to_readback)
          else
            let st = st\<lparr>gpu_complete := True, completion_time_us := now\<rparr>;
                measured_time = completion_time_us st - dispatch_time_us st
            in (s\<lparr>chunk_gpu_states := AList.update org st (chunk_gpu_states s),
                  total_gpu_time_us := total_gpu_time_us s + measured_time,
                  total_chunks_generated := total_chunks_generated s + 1\<rparr>,
                to_readback @ [org]))"

definition worker_mark_complete ::
  "terrain \<Rightarrow> Vector3i list \<Rightarrow> Vector3i list \<Rightarrow> u64 \<Rightarrow> terrain \<times> Vector3i list" where
  "worker_mark_complete s to_complete to_readback now =
     (if to_complete \<noteq> [] \<and> rd_present s
      then fold (mark_complete_one now) to_complete (s, to_readback)
      else (s, to_readback))"

definition worker_read_flags :: "terrain \<Rightarrow> Vector3i \<Rightarrow> (bool \<times> RID \<times> RID) option" where
  "worker_read_flags s org =
     (case map_of (chunk_gpu_states s) org of
        None \<Rightarrow> None
      | Some st \<Rightarrow> Some (physics_needed st, sdf_texture st, material_texture st))"

definition worker_migrate ::
  "terrain \<Rightarrow> Vector3i \<Rightarrow> bool \<Rightarrow> byte list \<Rightarrow> byte list \<Rightarrow> terrain" where
  "worker_migrate s org needs_physics sdf mat =
     (case map_of (chunk_gpu_states s) org of
        None \<Rightarrow> s
      | Some st \<Rightarrow>
          let st = st\<lparr>sdf_data := sdf, mat_data := mat,
                       cpu_readback_complete := needs_physics\<rparr>;
              cache_entry =
                [(''sdf'', VRid (sdf_texture st)), (''material'', VRid (material_texture st)),
                 (''gpu_complete'', VBool True)];
              cache_entry =
                (if needs_physics \<and> sdf \<noteq> [] \<and> mat \<noteq> []
                 then AList.update ''mat_data'' (VBytes mat)
                        (AList.update ''sdf_data'' (VBytes sdf) cache_entry)
                 else cache_entry)
          in s\<lparr>sdf_cache := AList.update (VecKey org) cache_entry (sdf_cache s),
               chunk_gpu_states := AList.delete org (chunk_gpu_states s)\<rparr>)"

definition readback_one :: "Vector3i \<Rightarrow> terrain \<Rightarrow> terrain" where
  "readback_one org s =
     (case worker_read_flags s org of
        None \<Rightarrow> s
      | Some (needs_physics, sdf_tex, mat_tex) \<Rightarrow>
          let sdf = (if needs_physics then contents (rd s) sdf_tex else []);
              mat = (if needs_physics then contents (rd s) mat_tex else [])
          in worker_migrate s org needs_physics sdf mat)"

text \<open>A whole iteration of the loop with no other thread running in between.\<close>

definition readback_worker_iteration :: "terrain \<Rightarrow> u64 \<Rightarrow> terrain" where
  "readback_worker_iteration s now =
     (case worker_snapshot s of (to_complete, to_readback) \<Rightarrow>
      case worker_mark_complete s to_complete to_readback now of (s, to_readback) \<Rightarrow>
        fold readback_one to_readback s)"

section \<open>Terrain: polling and the synchronous request\<close>

text \<open>
  \<^verbatim>\<open>get_chunk_gpu_textures\<close> (lines 1054-1098) has two critical sections: the lookup in the
  cache under \<^verbatim>\<open>cache_mutex\<close> (lines 1061-1077) and, when that did not return, the lookup in
  the in-flight map under \<^verbatim>\<open>queue_mutex\<close> (lines 1080-1095).
\<close>

definition lookup_cached_textures :: "terrain \<Rightarrow> Vector3i \<Rightarrow> Dictionary option" where
  "lookup_cached_textures s org =
     (case map_of (sdf_cache s) (VecKey org) of
        None \<Rightarrow> None
      | Some cached \<Rightarrow>
          if has cached ''sdf'' \<and> has cached ''material'' \<and> has cached ''gpu_complete''
             \<and> as_bool (dict_get cached ''gpu_complete'')
          then Some [(''sdf'', dict_get cached ''sdf''), (''material'', dict_get cached ''material''),
                     (''ready'', VBool True),
                     (''has_cpu_data'',
                      VBool (has cached ''sdf_data'' \<and> has cached ''mat_data''))]
          else None)"

definition lookup_inflight_textures :: "terrain \<Rightarrow> Vector3i \<Rightarrow> Dictionary" where
  "lookup_inflight_textures s org =
     (case map_of (chunk_gpu_states s) org of
        Some st \<Rightarrow>
          if gpu_complete st
          then [(''sdf'', VRid (sdf_texture st)), (''material'', VRid (material_texture st)),
                (''ready'', VBool True), (''has_cpu_data'', VBool (cpu_readback_complete st))]
          else [(''ready'', VBool False)]
      | None \<Rightarrow> [(''ready'', VBool False)])"

definition get_chunk_gpu_textures :: "terrain \<Rightarrow> Vector3i \<Rightarrow> Dictionary" where
  "get_chunk_gpu_textures s org =
     (case lookup_cached_textures s org of
        Some result \<Rightarrow> result
      | None \<Rightarrow> lookup_inflight_textures s org)"

definition ready :: "Dictionary \<Rightarrow> bool" where
  "ready result = as_bool (dict_get result ''ready'')"

text \<open>
  The decode loops (lines 548-560 and 608-620): outer z, middle y, inner x, four bytes per
  voxel and channel.
\<close>

definition write_voxel ::
  "byte list \<Rightarrow> byte list \<Rightarrow> nat \<Rightarrow> nat \<Rightarrow> nat \<Rightarrow> nat \<Rightarrow> VoxelBuffer \<Rightarrow> VoxelBuffer" where
  "write_voxel sdf mat cs z y x b =
     (let idx = (z * cs * cs + y * cs + x) * 4
      in b\<lparr>sdf_channel := (sdf_channel b)((int x, int y, int z) := read_u32 sdf idx),
           indices_channel := (indices_channel b)((int x, int y, int z) := read_u32 mat idx)\<rparr>)"

definition write_voxels :: "nat \<Rightarrow> byte list \<Rightarrow> byte list \<Rightarrow> VoxelBuffer \<Rightarrow> VoxelBuffer" where
  "write_voxels cs sdf mat =
     fold (\<lambda>z. fold (\<lambda>y. fold (\<lambda>x. write_voxel sdf mat cs z y x) [0..<cs]) [0..<cs]) [0..<cs]"

text \<open>\<^verbatim>\<open>write_gpu_data_to_buffer_bulk\<close> (lines 518-561); \<open>0x3F800000\<close> is the float 1.0.\<close>

definition write_gpu_data_to_buffer_bulk ::
  "terrain \<Rightarrow> VoxelBuffer \<Rightarrow> RID \<Rightarrow> RID \<Rightarrow> int \<Rightarrow> VoxelBuffer" where
  "write_gpu_data_to_buffer_bulk s voxel_buffer sdf_tex mat_tex cs =
     (if \<not> rd_present s then voxel_buffer
      else
        let sdf = contents (rd s) sdf_tex;
            mat = contents (rd s) mat_tex;
            total_voxels = cs * cs * cs;
            expected_size = total_voxels * 4
        in if int (length sdf) < expected_size \<or> int (length mat) < expected_size
           then voxel_buffer
           else write_voxels (nat cs) sdf mat
                  \<lparr> sdf_channel = (\<lambda>_. 0x3F800000), indices_channel = (\<lambda>_. 0) \<rparr>)"

text \<open>
  \<^verbatim>\<open>generate_block\<close> (lines 575-656). The result is \<^verbatim>\<open>max_lod_hint\<close>, the voxel buffer and the
  new state.
\<close>

definition generate_block ::
  "terrain \<Rightarrow> Vector3i \<Rightarrow> int \<Rightarrow> VoxelBuffer \<Rightarrow> u64 \<Rightarrow> bool \<times> VoxelBuffer \<times> terrain" where
  "generate_block s0 origin_in_voxels lod_arg out_buffer now =
     (case (if gpu_initialized s0 then (True, s0) else initialize_gpu s0) of (ok, s) \<Rightarrow>
      if \<not> ok then (False, out_buffer, s)
      else
        let cache_key = StrKey origin_in_voxels lod_arg;
            hit = (case map_of (sdf_cache s) cache_key of
                     Some cached \<Rightarrow>
                       if has cached ''sdf_data'' \<and> has cached ''mat_data''
                       then Some cached else None
                   | None \<Rightarrow> None)
        in
        case hit of
          Some cached \<Rightarrow>
            (True,
             write_voxels (nat (chunk_size s)) (as_bytes (dict_get cached ''sdf_data''))
               (as_bytes (dict_get cached ''mat_data'')) out_buffer,
             s)
        | None \<Rightarrow>
            if lod_arg > 0
            then (False, out_buffer,
                  enqueue_chunk_request s origin_in_voxels lod_arg (player_position s) now)
            else
              case generate_chunk_sdf s origin_in_voxels now of (gpu_result, s) \<Rightarrow>
              if has gpu_result ''sdf_texture'' \<and> has gpu_result ''material_texture''
              then
                let sdf_tex = as_rid (dict_get gpu_result ''sdf_texture'');
                    mat_tex = as_rid (dict_get gpu_result ''material_texture'');
                    out = write_gpu_data_to_buffer_bulk s out_buffer sdf_tex mat_tex
                            (chunk_size s);
                    cache_entry = [(''sdf_data'', VBytes (contents (rd s) sdf_tex)),
                                   (''mat_data'', VBytes (contents (rd s) mat_tex))]
                in (True, out,
                    s\<lparr>sdf_cache := AList.update cache_key cache_entry (sdf_cache s)\<rparr>)
              else (False, out_buffer, s))"

subsection \<open>Example states of the terrain generator\<close>

text \<open>
  The generator as its constructor leaves it before \<^verbatim>\<open>initialize_gpu\<close> (lines 17-39), in an
  engine where the device and both shaders are available. Every texture reads back as the
  four bytes 1, 2, 3, 4.
\<close>

definition terrain_new :: terrain where
  "terrain_new =
     \<lparr> rd = \<lparr> next_id = 0, live = [], create_results = [], submitted = [],
              contents = (\<lambda>r. [1, 2, 3, 4]) \<rparr>,
       rd_present = False, device_available = True, biome_source_ok = True,
       sdf_source_ok = True,
       biome_map_shader = 0, biome_map_pipeline = 0, biome_map_texture = 0,
       sdf_shader = 0, sdf_pipeline = 0, cached_sampler = 0,
       sdf_cache = [], chunk_size = 32, gpu_initialized = False,
       chunk_request_queue = [], chunk_gpu_states = [], player_position = (0, 0, 0),
       frame_gpu_budget_us = 8000, current_frame_gpu_time_us = 0,
       chunks_dispatched_this_frame = 0, chunks_completed_this_frame = 0,
       total_gpu_time_us = 0, total_chunks_generated = 0 \<rparr>"

text \<open>The generator after the constructor's \<^verbatim>\<open>initialize_gpu\<close> has succeeded.\<close>

definition terrain_ready :: terrain where
  "terrain_ready = snd (initialize_gpu terrain_new)"

text \<open>The same generator when the next texture creation (the biome map) fails.\<close>

definition terrain_biome_fails :: terrain where
  "terrain_biome_fails =
     terrain_ready\<lparr>rd := (rd terrain_ready)\<lparr>create_results := [False]\<rparr>\<rparr>"

definition empty_voxels :: VoxelBuffer where
  "empty_voxels = \<lparr> sdf_channel = (\<lambda>_. 0), indices_channel = (\<lambda>_. 0) \<rparr>"

text \<open>
  Requests enqueued by an observer standing at (16, 16, 16), the centre of the chunk at the
  origin. \<open>terrain_three_requests\<close>: chunks at distances 500, 10 and 300, in that order.
  \<open>terrain_four_requests\<close>: four different chunks. \<open>terrain_duplicate_requests\<close>: the same
  chunk requested four times.
\<close>

definition terrain_three_requests :: terrain where
  "terrain_three_requests =
     enqueue_chunk_request
       (enqueue_chunk_request
          (enqueue_chunk_request terrain_ready (500, 0, 0) 1 (16, 16, 16) 1)
          (10, 0, 0) 1 (16, 16, 16) 2)
       (300, 0, 0) 1 (16, 16, 16) 3"



text \<open>Two requests for different chunks with the same priority value.\<close>

definition tie_a :: ChunkRequest where
  "tie_a = \<lparr> origin = (0, 0, 0), req_lod = 1, priority = 5, request_time_us = 1 \<rparr>"

definition tie_b :: ChunkRequest where
  "tie_b = \<lparr> origin = (32, 0, 0), req_lod = 1, priority = 5, request_time_us = 2 \<rparr>"

text \<open>
  One chunk requested with LOD 1 and dispatched by a tick (\<open>terrain_in_flight\<close>); then the
  background loop has taken its snapshot and, after the barrier, marked the chunk complete
  (\<open>terrain_marked\<close>); then it has migrated the chunk into the cache (\<open>terrain_migrated\<close>).
\<close>

definition terrain_in_flight :: terrain where
  "terrain_in_flight =
     process_chunk_queue (enqueue_chunk_request terrain_ready (0, 0, 0) 1 (16, 16, 16) 10) 20"

definition terrain_marked :: terrain where
  "terrain_marked =
     fst (worker_mark_complete terrain_in_flight (fst (worker_snapshot terrain_in_flight))
            (snd (worker_snapshot terrain_in_flight)) 30)"

definition terrain_migrated :: terrain where
  "terrain_migrated =
     fold readback_one
       (snd (worker_mark_complete terrain_in_flight (fst (worker_snapshot terrain_in_flight))
               (snd (worker_snapshot terrain_in_flight)) 30))
       terrain_marked"

text \<open>
  Two synchronous LOD-0 requests for the same chunk, one right after the other
  (\<open>sync_first\<close>, \<open>sync_second\<close>); the state after the first request and a whole iteration
  of the background loop (\<open>sync_completed\<close>), and the second request issued in that state
  (\<open>sync_second_late\<close>).
\<close>

definition sync_first :: "bool \<times> VoxelBuffer \<times> terrain" where
  "sync_first = generate_block terrain_ready (0, 0, 0) 0 empty_voxels 10"

definition sync_second :: "bool \<times> VoxelBuffer \<times> terrain" where
  "sync_second = generate_block (snd (snd sync_first)) (0, 0, 0) 0 empty_voxels 20"

definition sync_completed :: terrain where
  "sync_completed = readback_worker_iteration (snd (snd sync_first)) 15"

definition sync_second_late :: "bool \<times> VoxelBuffer \<times> terrain" where
  "sync_second_late = generate_block sync_completed (0, 0, 0) 0 empty_voxels 20"

text \<open>
  A chunk enqueued with LOD 0 and dispatched by a tick (\<open>lod0_dispatched\<close>), then requested
  synchronously through \<^verbatim>\<open>generate_block\<close> while still in flight (\<open>lod0_requested_again\<close>),
  then handled by an iteration of the background loop (\<open>lod0_completed\<close>).
  \<open>lod0_raced\<close>: the background loop runs a whole iteration between the two critical
  sections of \<^verbatim>\<open>dispatch_chunk_async(origin, 0)\<close>.
\<close>

definition lod0_dispatched :: terrain where
  "lod0_dispatched =
     process_chunk_queue (enqueue_chunk_request terrain_ready (0, 0, 0) 0 (16, 16, 16) 10) 20"

definition lod0_requested_again :: terrain where
  "lod0_requested_again = snd (snd (generate_block lod0_dispatched (0, 0, 0) 0 empty_voxels 30))"

definition lod0_completed :: terrain where
  "lod0_completed = readback_worker_iteration lod0_requested_again 40"

definition lod0_raced :: terrain where
  "lod0_raced =
     update_lod_flags
       (readback_worker_iteration (snd (generate_chunk_sdf terrain_ready (0, 0, 0) 10)) 20)
       (0, 0, 0) 0"

text \<open>
  \<^verbatim>\<open>generate_chunk_sdf\<close> when the biome map texture cannot be created
  (\<open>biome_failure_run\<close>), when the material texture cannot be created
  (\<open>material_failure_run\<close>) and when the uniform set cannot be created
  (\<open>uniform_failure_run\<close>); in the last two the biome map exists already (handle 5).
\<close>

definition biome_failure_run :: "Dictionary \<times> terrain" where
  "biome_failure_run = generate_chunk_sdf terrain_biome_fails (0, 0, 0) 10"

definition terrain_with_biome :: terrain where
  "terrain_with_biome = generate_biome_map_if_needed terrain_ready"

definition material_failure_run :: "Dictionary \<times> terrain" where
  "material_failure_run =
     generate_chunk_sdf
       (terrain_with_biome\<lparr>rd := (rd terrain_with_biome)\<lparr>create_results := [True, False]\<rparr>\<rparr>)
       (0, 0, 0) 10"

definition uniform_failure_run :: "Dictionary \<times> terrain" where
  "uniform_failure_run =
     generate_chunk_sdf
       (terrain_with_biome
          \<lparr>rd := (rd terrain_with_biome)\<lparr>create_results := [True, True, True, False]\<rparr>\<rparr>)
       (0, 0, 0) 10"


subsection \<open>Example states of the vegetation dispatcher\<close>

text \<open>
  A dispatcher after \<^verbatim>\<open>initialize_gpu\<close> with empty caches and a capacity of two entries. The
  terrain provider has an SDF image (handle 77) for every chunk, and every placement buffer
  reads back as one record.
\<close>

definition veg_example :: vegetation where
  "veg_example =
     \<lparr> veg_rd = \<lparr> next_id = 5, live = [5, 4, 3, 2, 1], create_results = [], submitted = [],
                  contents = (\<lambda>r. bytes_of_u32 1 @ replicate 48 0) \<rparr>,
       veg_rd_present = True, shader_source_ok = True, transform_source_ok = True,
       shader = 1, pipeline = 2, transform_shader = 4, transform_pipeline = 5,
       cached_sampler_linear = 3,
       placement_cache = [], buffer_cache = [], transform_buffer_cache = [],
       lru_list = [], lru_map = {},
       total_placement_time_us = 0, last_placement_time_us = 0, placement_call_count = 0,
       max_cache_entries = 2, veg_gpu_initialized = True,
       terrain_dispatcher = Some (\<lambda>c. 77) \<rparr>"

text \<open>The same dispatcher with no terrain provider set.\<close>

definition veg_no_terrain :: vegetation where
  "veg_no_terrain = veg_example\<lparr>terrain_dispatcher := None\<rparr>"

section \<open>Properties of the vegetation dispatcher\<close>

subsection \<open>Round trip\<close>










subsection \<open>LRU eviction\<close>

lemmas veg_defs = generate_placements_def get_transform_buffer_rid_def veg_create_def veg_free_def
  rd_create_def free_rid_def submit_def update_lru_access_def evict_lru_entry_def release_entry_def
  find2_def store2_def erase2_def size2_def is_valid_def get_cache_size_def is_chunk_ready_def
  get_placement_buffer_rid_def buffer_get_data_def

text \<open>
  C6. With \<^verbatim>\<open>max_cache_entries = 2\<close> and empty caches, generating placements for the
  distinct chunks A, B and C (type 0, every allocation succeeding, the terrain provider
  having an SDF image for each) evicts exactly (A,0): its decoded list is gone, its placement
  buffer and (when \<^verbatim>\<open>get_transform_buffer_rid\<close> had created one) its transform buffer are removed
  from the caches and freed, (B,0) and (C,0) stay with live buffers, and the entry count is
  at most 2 after each insertion.
\<close>

theorem lru_eviction_three_inserts:
  assumes init: "veg_gpu_initialized s"
    and empty: "placement_cache s = []" "buffer_cache s = []" "transform_buffer_cache s = []"
      "lru_list s = []" "lru_map s = {}"
    and cap: "max_cache_entries s = 2"
    and terrain: "terrain_dispatcher s = Some f" "is_valid (f A)" "is_valid (f B)" "is_valid (f C)"
    and biome: "is_valid biome"
    and alloc: "create_results (veg_rd s) = []"
    and keys: "A \<noteq> B" "A \<noteq> C" "B \<noteq> C"
  shows
    "let s1 = snd (generate_placements s A 0 biome cfa ea);
         buf_A = get_placement_buffer_rid s1 A 0;
         tr_A = fst (get_transform_buffer_rid s1 A 0);
         s1' = snd (get_transform_buffer_rid s1 A 0);
         s2 = snd (generate_placements s1' B 0 biome cfb eb);
         s3 = snd (generate_placements s2 C 0 biome cfc ec)
     in \<not> is_chunk_ready s3 A 0 \<and> is_chunk_ready s3 B 0 \<and> is_chunk_ready s3 C 0
        \<and> lru_list s3 = [(C, 0), (B, 0)]
        \<and> find2 (buffer_cache s3) A 0 = None \<and> find2 (transform_buffer_cache s3) A 0 = None
        \<and> is_valid buf_A \<and> buf_A \<in> set (live (veg_rd s2)) \<and> buf_A \<notin> set (live (veg_rd s3))
        \<and> (is_valid tr_A \<longrightarrow> tr_A \<in> set (live (veg_rd s2)) \<and> tr_A \<notin> set (live (veg_rd s3)))
        \<and> get_placement_buffer_rid s3 B 0 \<in> set (live (veg_rd s3))
        \<and> get_placement_buffer_rid s3 C 0 \<in> set (live (veg_rd s3))
        \<and> get_cache_size s1 \<le> 2 \<and> get_cache_size s2 \<le> 2 \<and> get_cache_size s3 \<le> 2"
proof -
  define n where "n = next_id (veg_rd s)"
  define s1 where "s1 = snd (generate_placements s A 0 biome cfa ea)"
  define tr where "tr = fst (get_transform_buffer_rid s1 A 0)"
  define s1' where "s1' = snd (get_transform_buffer_rid s1 A 0)"
  define s2 where "s2 = snd (generate_placements s1' B 0 biome cfb eb)"
  define s3 where "s3 = snd (generate_placements s2 C 0 biome cfc ec)"
  note pre = init empty cap terrain biome alloc
  have s1: "veg_gpu_initialized s1" "max_cache_entries s1 = 2" "terrain_dispatcher s1 = Some f"
    "create_results (veg_rd s1) = []" "next_id (veg_rd s1) = n + 2"
    "\<exists>p. placement_cache s1 = [(A, [(0, p)])]" "buffer_cache s1 = [(A, [(0, Suc n)])]"
    "transform_buffer_cache s1 = []" "lru_list s1 = [(A, 0)]" "lru_map s1 = {(A, 0)}"
    "Suc n \<in> set (live (veg_rd s1))"
    unfolding s1_def n_def using pre by (simp_all add: veg_defs Let_def case_prod_beta)
  then obtain p1 where p1: "placement_cache s1 = [(A, [(0, p1)])]" by blast
  have s1': "veg_gpu_initialized s1'" "max_cache_entries s1' = 2" "terrain_dispatcher s1' = Some f"
    "create_results (veg_rd s1') = []" "n + 2 \<le> next_id (veg_rd s1')" "tr \<le> next_id (veg_rd s1')"
    "placement_cache s1' = [(A, [(0, p1)])]" "buffer_cache s1' = [(A, [(0, Suc n)])]"
    "transform_buffer_cache s1' = (if is_valid tr then [(A, [(0, tr)])] else [])"
    "lru_list s1' = [(A, 0)]" "lru_map s1' = {(A, 0)}"
    "Suc n \<in> set (live (veg_rd s1'))" "is_valid tr \<longrightarrow> tr \<in> set (live (veg_rd s1'))"
    unfolding s1'_def tr_def using s1 p1 by (simp_all add: veg_defs Let_def case_prod_beta)
  define m where "m = next_id (veg_rd s1')"
  have s2: "veg_gpu_initialized s2" "max_cache_entries s2 = 2" "terrain_dispatcher s2 = Some f"
    "create_results (veg_rd s2) = []" "next_id (veg_rd s2) = m + 2"
    "\<exists>p. placement_cache s2 = [(A, [(0, p1)]), (B, [(0, p)])]"
    "buffer_cache s2 = [(A, [(0, Suc n)]), (B, [(0, Suc m)])]"
    "transform_buffer_cache s2 = (if is_valid tr then [(A, [(0, tr)])] else [])"
    "lru_list s2 = [(B, 0), (A, 0)]" "lru_map s2 = {(B, 0), (A, 0)}"
    "live (veg_rd s2) = Suc m # removeAll (m + 2) (live (veg_rd s1'))"
    unfolding s2_def m_def using s1' keys biome terrain
    by (simp_all add: veg_defs Let_def case_prod_beta)
  then obtain p2 where p2: "placement_cache s2 = [(A, [(0, p1)]), (B, [(0, p2)])]" by blast
  have lt: "Suc n < m + 2" "tr < m + 2" "Suc n \<noteq> Suc m" "tr \<noteq> Suc m"
    using s1'(5,6) unfolding m_def by simp_all
  have live2: "Suc n \<in> set (live (veg_rd s2))" "is_valid tr \<longrightarrow> tr \<in> set (live (veg_rd s2))"
    using s1'(12,13) lt by (simp_all add: s2(11))
  have s3: "\<exists>p. placement_cache s3 = [(B, [(0, p2)]), (C, [(0, p)])]"
    "buffer_cache s3 = [(B, [(0, Suc m)]), (C, [(0, m + 3)])]"
    "transform_buffer_cache s3 = []"
    "lru_list s3 = [(C, 0), (B, 0)]"
    "Suc n \<notin> set (live (veg_rd s3))" "is_valid tr \<longrightarrow> tr \<notin> set (live (veg_rd s3))"
    "Suc m \<in> set (live (veg_rd s3))" "m + 3 \<in> set (live (veg_rd s3))"
    unfolding s3_def using s2 p2 keys biome terrain lt
    by (simp_all add: veg_defs Let_def case_prod_beta)
  then obtain p3 where p3: "placement_cache s3 = [(B, [(0, p2)]), (C, [(0, p3)])]" by blast
  have "\<not> is_chunk_ready s3 A 0" "is_chunk_ready s3 B 0" "is_chunk_ready s3 C 0"
    "find2 (buffer_cache s3) A 0 = None" "find2 (transform_buffer_cache s3) A 0 = None"
    "get_placement_buffer_rid s3 B 0 = Suc m" "get_placement_buffer_rid s3 C 0 = m + 3"
    "get_cache_size s3 \<le> 2"
    using s3 p3 keys by (simp_all add: is_chunk_ready_def find2_def get_placement_buffer_rid_def
        get_cache_size_def size2_def)
  moreover have "get_placement_buffer_rid s1 A 0 = Suc n" "get_cache_size s1 \<le> 2"
    "get_cache_size s2 \<le> 2"
    using s1 p1 s2 p2 keys by (simp_all add: find2_def get_placement_buffer_rid_def
        get_cache_size_def size2_def)
  ultimately show ?thesis
    using s3 live2
    by (simp add: Let_def is_valid_def flip: s1_def s1'_def tr_def s2_def s3_def)
qed

theorem lru_eviction_three_inserts_witness:
  "veg_gpu_initialized veg_example \<and> placement_cache veg_example = []
   \<and> buffer_cache veg_example = [] \<and> transform_buffer_cache veg_example = []
   \<and> lru_list veg_example = [] \<and> lru_map veg_example = {}
   \<and> max_cache_entries veg_example = 2
   \<and> terrain_dispatcher veg_example = Some (\<lambda>c. 77)
   \<and> is_valid 77 \<and> is_valid 9 \<and> create_results (veg_rd veg_example) = []
   \<and> ((0, 0, 0) :: Vector3i) \<noteq> (32, 0, 0) \<and> ((0, 0, 0) :: Vector3i) \<noteq> (64, 0, 0)
   \<and> ((32, 0, 0) :: Vector3i) \<noteq> (64, 0, 0)
   \<and> is_valid (fst (get_transform_buffer_rid
         (snd (generate_placements veg_example (0, 0, 0) 0 9 True 100)) (0, 0, 0) 0))
   \<and> (let s1 = snd (generate_placements veg_example (0, 0, 0) 0 9 True 100);
         buf_A = get_placement_buffer_rid s1 (0, 0, 0) 0;
         tr_A = fst (get_transform_buffer_rid s1 (0, 0, 0) 0);
         s1' = snd (get_transform_buffer_rid s1 (0, 0, 0) 0);
         s2 = snd (generate_placements s1' (32, 0, 0) 0 9 True 100);
         s3 = snd (generate_placements s2 (64, 0, 0) 0 9 True 100)
     in \<not> is_chunk_ready s3 (0, 0, 0) 0 \<and> is_chunk_ready s3 (32, 0, 0) 0
        \<and> is_chunk_ready s3 (64, 0, 0) 0
        \<and> lru_list s3 = [((64, 0, 0), 0), ((32, 0, 0), 0)]
        \<and> find2 (buffer_cache s3) (0, 0, 0) 0 = None
        \<and> find2 (transform_buffer_cache s3) (0, 0, 0) 0 = None
        \<and> is_valid buf_A \<and> buf_A \<in> set (live (veg_rd s2)) \<and> buf_A \<notin> set (live (veg_rd s3))
        \<and> (is_valid tr_A \<longrightarrow> tr_A \<in> set (live (veg_rd s2)) \<and> tr_A \<notin> set (live (veg_rd s3)))
        \<and> get_placement_buffer_rid s3 (32, 0, 0) 0 \<in> set (live (veg_rd s3))
        \<and> get_placement_buffer_rid s3 (64, 0, 0) 0 \<in> set (live (veg_rd s3))
        \<and> get_cache_size s1 \<le> 2 \<and> get_cache_size s2 \<le> 2 \<and> get_cache_size s3 \<le> 2)"
proof -
  have h: "veg_gpu_initialized veg_example" "placement_cache veg_example = []"
    "buffer_cache veg_example = []" "transform_buffer_cache veg_example = []"
    "lru_list veg_example = []" "lru_map veg_example = {}"
    "max_cache_entries veg_example = 2"
    "terrain_dispatcher veg_example = Some (\<lambda>c. 77)"
    "is_valid 77" "is_valid 77" "is_valid 77" "is_valid 9"
    "create_results (veg_rd veg_example) = []"
    "((0, 0, 0) :: Vector3i) \<noteq> (32, 0, 0)" "((0, 0, 0) :: Vector3i) \<noteq> (64, 0, 0)"
    "((32, 0, 0) :: Vector3i) \<noteq> (64, 0, 0)"
    by (simp_all add: veg_example_def is_valid_def)
  have tr: "is_valid (fst (get_transform_buffer_rid
         (snd (generate_placements veg_example (0, 0, 0) 0 9 True 100)) (0, 0, 0) 0))"
    by (simp add: veg_example_def veg_defs Let_def read_u32_def bytes_of_u32_def
        MAX_PLACEMENTS_def)
  show ?thesis
    using h tr lru_eviction_three_inserts [OF h, of True 100 True 100 True 100]
    by blast
qed

subsection \<open>Missing terrain input\<close>

lemma veg_create_frame:
  "placement_cache (snd (veg_create s)) = placement_cache s"
  "buffer_cache (snd (veg_create s)) = buffer_cache s"
  "transform_buffer_cache (snd (veg_create s)) = transform_buffer_cache s"
  "lru_list (snd (veg_create s)) = lru_list s"
  "lru_map (snd (veg_create s)) = lru_map s"
  "terrain_dispatcher (snd (veg_create s)) = terrain_dispatcher s"
  "transform_source_ok (snd (veg_create s)) = transform_source_ok s"
  "submitted (veg_rd (snd (veg_create s))) = submitted (veg_rd s)"
  by (simp_all add: veg_create_def rd_create_def case_prod_beta split: list.splits bool.splits)

lemma veg_free_frame:
  "placement_cache (veg_free r s) = placement_cache s"
  "buffer_cache (veg_free r s) = buffer_cache s"
  "transform_buffer_cache (veg_free r s) = transform_buffer_cache s"
  "lru_list (veg_free r s) = lru_list s"
  "lru_map (veg_free r s) = lru_map s"
  "terrain_dispatcher (veg_free r s) = terrain_dispatcher s"
  "submitted (veg_rd (veg_free r s)) = submitted (veg_rd s)"
  by (simp_all add: veg_free_def free_rid_def)

lemma veg_initialize_gpu_frame:
  "placement_cache (snd (veg_initialize_gpu s)) = placement_cache s"
  "buffer_cache (snd (veg_initialize_gpu s)) = buffer_cache s"
  "transform_buffer_cache (snd (veg_initialize_gpu s)) = transform_buffer_cache s"
  "lru_list (snd (veg_initialize_gpu s)) = lru_list s"
  "lru_map (snd (veg_initialize_gpu s)) = lru_map s"
  "terrain_dispatcher (snd (veg_initialize_gpu s)) = terrain_dispatcher s"
  "submitted (veg_rd (snd (veg_initialize_gpu s))) = submitted (veg_rd s)"
  by (simp_all add: veg_initialize_gpu_def Let_def case_prod_beta veg_create_frame veg_free_frame)

lemma generate_placements_early:
  assumes "veg_gpu_initialized s" "find2 (placement_cache s) chunk_origin veg_type = None"
    "\<not> is_valid (case terrain_dispatcher s of None \<Rightarrow> 0 | Some f \<Rightarrow> f chunk_origin)"
  shows "generate_placements s chunk_origin veg_type biome cpu_fallback el = ([], s)"
  using assms by (simp add: generate_placements_def Let_def)

lemma generate_placements_early_init:
  assumes "\<not> veg_gpu_initialized s" "find2 (placement_cache s) chunk_origin veg_type = None"
    "\<not> is_valid (case terrain_dispatcher s of None \<Rightarrow> 0 | Some f \<Rightarrow> f chunk_origin)"
  shows "generate_placements s chunk_origin veg_type biome cpu_fallback el
           = ([], snd (veg_initialize_gpu s))"
  using assms
  by (simp add: generate_placements_def Let_def case_prod_beta veg_initialize_gpu_frame)

text \<open>
  C7. When the key is not cached and the terrain provider is not set, or returns an invalid
  handle for the chunk, \<^verbatim>\<open>generate_placements\<close> returns the empty list, submits nothing and
  leaves the placement cache, both buffer caches and the LRU list and map as they were.
\<close>

theorem generate_placements_without_terrain:
  assumes "find2 (placement_cache s) chunk_origin veg_type = None"
    and "terrain_dispatcher s = None
         \<or> (\<exists>f. terrain_dispatcher s = Some f \<and> \<not> is_valid (f chunk_origin))"
  shows "fst (generate_placements s chunk_origin veg_type biome cpu_fallback el) = []
    \<and> placement_cache (snd (generate_placements s chunk_origin veg_type biome cpu_fallback el))
        = placement_cache s
    \<and> buffer_cache (snd (generate_placements s chunk_origin veg_type biome cpu_fallback el))
        = buffer_cache s
    \<and> transform_buffer_cache
          (snd (generate_placements s chunk_origin veg_type biome cpu_fallback el))
        = transform_buffer_cache s
    \<and> lru_list (snd (generate_placements s chunk_origin veg_type biome cpu_fallback el))
        = lru_list s
    \<and> lru_map (snd (generate_placements s chunk_origin veg_type biome cpu_fallback el))
        = lru_map s
    \<and> submitted (veg_rd (snd (generate_placements s chunk_origin veg_type biome cpu_fallback el)))
        = submitted (veg_rd s)"
proof -
  from assms(2)
  have inv: "\<not> is_valid (case terrain_dispatcher s of None \<Rightarrow> 0 | Some f \<Rightarrow> f chunk_origin)"
    by (auto simp add: is_valid_def)
  show ?thesis
  proof (cases "veg_gpu_initialized s")
    case True
    show ?thesis
      by (simp add: generate_placements_early [OF True assms(1) inv])
  next
    case False
    show ?thesis
      by (simp add: generate_placements_early_init [OF False assms(1) inv]
          veg_initialize_gpu_frame)
  qed
qed

theorem generate_placements_without_terrain_witness:
  "find2 (placement_cache veg_no_terrain) (0, 0, 0) 0 = None
   \<and> terrain_dispatcher veg_no_terrain = None
   \<and> generate_placements veg_no_terrain (0, 0, 0) 0 9 True 100 = ([], veg_no_terrain)"
proof -
  have h: "find2 (placement_cache veg_no_terrain) (0, 0, 0) 0 = None"
    "terrain_dispatcher veg_no_terrain = None"
    by (simp_all add: veg_no_terrain_def veg_example_def find2_def)
  have "fst (generate_placements veg_no_terrain (0, 0, 0) 0 9 True 100) = []"
    using generate_placements_without_terrain [of veg_no_terrain "(0, 0, 0)" 0 9 True 100] h
    by blast
  moreover have "veg_gpu_initialized veg_no_terrain"
    by (simp add: veg_no_terrain_def veg_example_def)
  then have "snd (generate_placements veg_no_terrain (0, 0, 0) 0 9 True 100) = veg_no_terrain"
    using h by (simp add: generate_placements_early is_valid_def)
  ultimately show ?thesis
    using h by (simp add: prod_eq_iff)
qed

section \<open>Properties of the terrain generator\<close>

declare dispatch_loop.simps [simp del]
declare drain.simps [simp del]

lemmas terr_defs = enqueue_chunk_request_def process_chunk_queue_def dispatch_chunk_async_def
  update_lod_flags_def generate_chunk_sdf_def generate_biome_map_if_needed_def
  get_or_create_sampler_def terr_create_def terr_free_def rd_create_def free_rid_def submit_def
  is_valid_def pq_top_def pq_pop_def pq_push_def ChunkRequest_less_def distance_to_def
  chunk_center_def cpp_div_def fold_measured_time_def poll_gpu_completion_def
  generate_block_def has_def dict_get_def as_bool_def as_rid_def as_bytes_def ready_def
  worker_snapshot_def worker_mark_complete_def mark_complete_one_def worker_read_flags_def
  worker_migrate_def readback_one_def readback_worker_iteration_def
  lookup_cached_textures_def lookup_inflight_textures_def get_chunk_gpu_textures_def

lemma terrain_ready_eq:
  "terrain_ready =
     \<lparr> rd = \<lparr> next_id = 4, live = [4, 3, 2, 1], create_results = [], submitted = [],
              contents = (\<lambda>r. [1, 2, 3, 4]) \<rparr>,
       rd_present = True, device_available = True, biome_source_ok = True,
       sdf_source_ok = True,
       biome_map_shader = 1, biome_map_pipeline = 2, biome_map_texture = 0,
       sdf_shader = 3, sdf_pipeline = 4, cached_sampler = 0,
       sdf_cache = [], chunk_size = 32, gpu_initialized = True,
       chunk_request_queue = [], chunk_gpu_states = [], player_position = (0, 0, 0),
       frame_gpu_budget_us = 8000, current_frame_gpu_time_us = 0,
       chunks_dispatched_this_frame = 0, chunks_completed_this_frame = 0,
       total_gpu_time_us = 0, total_chunks_generated = 0 \<rparr>"
  by (simp add: terrain_ready_def terrain_new_def initialize_gpu_def compile_biome_map_shader_def
     compile_sdf_shader_def terr_create_def rd_create_def is_valid_def)

subsection \<open>Order of the queue\<close>

lemma pq_best_least:
  "priority (pq_best b xs) \<le> priority b \<and> (\<forall>x \<in> set xs. priority (pq_best b xs) \<le> priority x)"
proof (induction xs arbitrary: b)
  case Nil
  show ?case by simp
next
  case (Cons y ys)
  from Cons.IH [of "if ChunkRequest_less b y then y else b"]
  show ?case
    by (auto simp add: ChunkRequest_less_def split: if_splits)
qed

lemma pq_top_least: "x \<in> set q \<Longrightarrow> priority (pq_top q) \<le> priority x"
proof (cases q)
  case Nil
  then show "x \<in> set q \<Longrightarrow> ?thesis" by simp
next
  case (Cons b xs)
  then show "x \<in> set q \<Longrightarrow> ?thesis"
    using pq_best_least [of b xs] by (auto simp add: pq_top_def)
qed

lemma mset_drain: "mset (drain q) = mset q"
proof (induction q rule: drain.induct)
  case (1 q)
  show ?case
  proof (cases "q = []")
    case True
    then show ?thesis by (simp add: drain.simps)
  next
    case False
    with 1 have "mset (drain (pq_pop q)) = mset (pq_pop q)" by simp
    with False pq_top_in [of q] show ?thesis
      by (subst drain.simps) (simp add: pq_pop_def)
  qed
qed

lemma sorted_drain: "sorted_wrt (\<lambda>a b. priority a \<le> priority b) (drain q)"
proof (induction q rule: drain.induct)
  case (1 q)
  show ?case
  proof (cases "q = []")
    case True
    then show ?thesis by (simp add: drain.simps)
  next
    case False
    have "set (drain (pq_pop q)) \<subseteq> set q"
      using mset_drain [of "pq_pop q"] by (metis mset_eq_setD pq_pop_def set_remove1_subset)
    then have "\<forall>x \<in> set (drain (pq_pop q)). priority (pq_top q) \<le> priority x"
      using pq_top_least by blast
    with False 1 show ?thesis
      by (subst drain.simps) simp
  qed
qed

lemma sqrt_examples: "sqrt 250000 = 500" "sqrt 100 = 10" "sqrt 90000 = 300"
  by (rule real_sqrt_unique; simp)+

lemma three_queue:
  "chunk_request_queue terrain_three_requests =
     [\<lparr> origin = (500, 0, 0), req_lod = 1, priority = 500, request_time_us = 1 \<rparr>,
      \<lparr> origin = (10, 0, 0), req_lod = 1, priority = 10, request_time_us = 2 \<rparr>,
      \<lparr> origin = (300, 0, 0), req_lod = 1, priority = 300, request_time_us = 3 \<rparr>]"
  by (simp add: terrain_three_requests_def terrain_ready_eq enqueue_chunk_request_def
      pq_push_def distance_to_def chunk_center_def cpp_div_def Let_def sqrt_examples)

lemma three_drain:
  "map origin (drain (chunk_request_queue terrain_three_requests))
     = [(10, 0, 0), (300, 0, 0), (500, 0, 0)]"
  by (simp add: three_queue drain.simps pq_top_def pq_pop_def ChunkRequest_less_def)

lemma three_dispatch:
  "submitted (rd (process_chunk_queue terrain_three_requests 20))
     = [BiomeMapJob, ChunkJob (10, 0, 0), ChunkJob (300, 0, 0), ChunkJob (500, 0, 0)]"
  by (simp add: terrain_three_requests_def terrain_ready_eq terr_defs Let_def dispatch_loop.simps)

lemma tie_drain:
  "priority tie_a = priority tie_b" "\<not> ChunkRequest_less tie_a tie_b"
  "\<not> ChunkRequest_less tie_b tie_a"
  "drain (pq_push tie_b (pq_push tie_a [])) = [tie_a, tie_b]"
  "drain (pq_push tie_a (pq_push tie_b [])) = [tie_b, tie_a]"
  by (simp_all add: tie_a_def tie_b_def drain.simps pq_top_def pq_pop_def pq_push_def
      ChunkRequest_less_def)


lemma handle_request_queue:
  "chunk_request_queue (handle_request now r s) = chunk_request_queue s"
  by (simp add: handle_request_def Let_def dispatch_chunk_async_queue)

lemma dispatch_loop_step:
  "dispatch_loop now s =
     (if chunk_request_queue s = []
         \<or> \<not> current_frame_gpu_time_us s < frame_gpu_budget_us s then s
      else dispatch_loop now
             (handle_request now (pq_top (chunk_request_queue s))
                (s\<lparr>chunk_request_queue := pq_pop (chunk_request_queue s)\<rparr>)))"
  by (subst dispatch_loop.simps) (simp add: handle_request_def Let_def)

lemma dispatch_loop_in_drain_order:
  "length (chunk_request_queue s) = n \<Longrightarrow>
   dispatch_loop now s = handle_in_order now (drain (chunk_request_queue s)) s"
proof (induction n arbitrary: s rule: less_induct)
  case (less n)
  let ?q = "chunk_request_queue s"
  show ?case
  proof (cases "?q = []")
    case True
    then show ?thesis
      by (subst dispatch_loop_step) (simp add: drain.simps)
  next
    case False
    let ?s' = "handle_request now (pq_top ?q) (s\<lparr>chunk_request_queue := pq_pop ?q\<rparr>)"
    have q': "chunk_request_queue ?s' = pq_pop ?q"
      by (simp add: handle_request_queue)
    have "length (pq_pop ?q) < n"
      using False less.prems length_pq_pop by blast
    then have "dispatch_loop now ?s' = handle_in_order now (drain (pq_pop ?q)) ?s'"
      using less.IH [of "length (pq_pop ?q)" ?s'] q' by simp
    with False show ?thesis
      by (subst dispatch_loop_step, subst drain.simps) simp
  qed
qed

text \<open>
  C4. Draining the request queue yields the requests in ascending order of their priority
  value, whatever the arrangement of the queue: the drained sequence is sorted and holds
  the same requests, and the dispatch loop of a tick handles the pending requests in that
  order. Requests enqueued at distances 500, 10 and 300 are popped, and
  dispatched by one tick, in the order 10, 300, 500. Among requests of equal priority the
  comparison decides nothing: the two arrangements of \<open>tie_a\<close> and \<open>tie_b\<close> drain in
  different orders.
\<close>

theorem queue_drains_by_priority:
  "(\<forall>q. sorted_wrt (\<lambda>a b. priority a \<le> priority b) (drain q) \<and> mset (drain q) = mset q)
   \<and> (\<forall>now s. dispatch_loop now s = handle_in_order now (drain (chunk_request_queue s)) s)
   \<and> map priority (chunk_request_queue terrain_three_requests) = [500, 10, 300]
   \<and> map priority (drain (chunk_request_queue terrain_three_requests)) = [10, 300, 500]
   \<and> submitted (rd (process_chunk_queue terrain_three_requests 20))
        = [BiomeMapJob, ChunkJob (10, 0, 0), ChunkJob (300, 0, 0), ChunkJob (500, 0, 0)]
   \<and> priority tie_a = priority tie_b
   \<and> drain (pq_push tie_b (pq_push tie_a [])) = [tie_a, tie_b]
   \<and> drain (pq_push tie_a (pq_push tie_b [])) = [tie_b, tie_a]"
proof -
  have "map priority (drain (chunk_request_queue terrain_three_requests)) = [10, 300, 500]"
    by (simp add: three_queue drain.simps pq_top_def pq_pop_def ChunkRequest_less_def)
  then show ?thesis
    using sorted_drain mset_drain three_dispatch tie_drain dispatch_loop_in_drain_order
    by (simp add: three_queue)
qed

subsection \<open>The observer position\<close>

text \<open>
  C10. \<^verbatim>\<open>enqueue_chunk_request\<close> with the position argument (0, 0, 0) keeps the stored
  observer position and computes the priority as the distance from the chunk centre to
  that stored position; with any other argument it stores the argument first and computes
  the priority from it. The new request is pushed on the queue.
\<close>

theorem enqueue_chunk_request_zero_sentinel:
  "player_position (enqueue_chunk_request s org l p now)
     = (if p = (0, 0, 0) then player_position s else p)
   \<and> chunk_request_queue (enqueue_chunk_request s org l p now)
     = pq_push \<lparr> origin = org, req_lod = l,
                 priority = distance_to (chunk_center s org)
                              (if p = (0, 0, 0) then player_position s else p),
                 request_time_us = now \<rparr>
         (chunk_request_queue s)"
  by (simp add: enqueue_chunk_request_def Let_def chunk_center_def)

subsection \<open>What a dispatch leaves alone\<close>










subsection \<open>The dispatch loop under a budget of four estimates\<close>















subsection \<open>The synchronous LOD-0 request\<close>

text \<open>
  C1. \<^verbatim>\<open>generate_chunk_sdf\<close> returns a dictionary with the keys \<^verbatim>\<open>sdf\<close>, \<^verbatim>\<open>material\<close>
  and \<^verbatim>\<open>ready\<close>; \<^verbatim>\<open>generate_block\<close> tests for \<^verbatim>\<open>sdf_texture\<close> and \<^verbatim>\<open>material_texture\<close>
  (line 635). On a freshly initialised generator a request for LOD 0 therefore returns
  with \<^verbatim>\<open>max_lod_hint = false\<close>, writes no voxel and stores nothing under its cache key; the
  same request issued again submits a second compute list (\<open>sync_second\<close>), and issued after
  the background loop has migrated the chunk it still writes no voxel (\<open>sync_second_late\<close>).
\<close>

theorem sync_request_never_caches:
  "\<not> fst sync_first \<and> fst (snd sync_first) = empty_voxels
   \<and> sdf_cache (snd (snd sync_first)) = []
   \<and> submitted (rd (snd (snd sync_first))) = [BiomeMapJob, ChunkJob (0, 0, 0)]
   \<and> \<not> fst sync_second \<and> fst (snd sync_second) = empty_voxels
   \<and> sdf_cache (snd (snd sync_second)) = []
   \<and> submitted (rd (snd (snd sync_second)))
        = [BiomeMapJob, ChunkJob (0, 0, 0), ChunkJob (0, 0, 0)]
   \<and> \<not> fst sync_second_late \<and> fst (snd sync_second_late) = empty_voxels
   \<and> sdf_cache (snd (snd sync_second_late))
        = [(VecKey (0, 0, 0),
            [(''sdf'', VRid 7), (''material'', VRid 8), (''gpu_complete'', VBool True)])]"
  by (simp add: sync_first_def sync_second_def sync_second_late_def sync_completed_def
      terrain_ready_eq terr_defs Let_def)

subsection \<open>Release of handles on failure\<close>

text \<open>
  C8. When the biome map texture cannot be created, \<^verbatim>\<open>generate_chunk_sdf\<close> allocates the
  SDF and material textures (handles 5 and 6), finds the biome map invalid and returns the
  empty dictionary without freeing them (lines 445-448). The sibling paths do free: when
  the material texture or the uniform set cannot be created, only the biome map (handle 5)
  and the cached sampler stay allocated.
\<close>

theorem biome_failure_leaks_textures:
  "fst biome_failure_run = [] \<and> live (rd terrain_biome_fails) = [4, 3, 2, 1]
   \<and> live (rd (snd biome_failure_run)) = [6, 5, 4, 3, 2, 1]
   \<and> chunk_gpu_states (snd biome_failure_run) = [] \<and> sdf_cache (snd biome_failure_run) = []
   \<and> live (rd terrain_with_biome) = [5, 4, 3, 2, 1]
   \<and> fst material_failure_run = [] \<and> live (rd (snd material_failure_run)) = [5, 4, 3, 2, 1]
   \<and> fst uniform_failure_run = [] \<and> cached_sampler (snd uniform_failure_run) = 9
   \<and> live (rd (snd uniform_failure_run)) = [9, 5, 4, 3, 2, 1]"
  by (simp add: biome_failure_run_def material_failure_run_def uniform_failure_run_def
      terrain_with_biome_def terrain_biome_fails_def terrain_ready_eq terr_defs Let_def)

subsection \<open>Readback gating\<close>

text \<open>
  C2. A chunk dispatched by a tick with LOD 0 has \<^verbatim>\<open>physics_needed = true\<close>. A
  \<^verbatim>\<open>generate_block\<close> request for LOD 0 on the same chunk, while it is in flight, overwrites
  the in-flight record with \<^verbatim>\<open>physics_needed = false\<close> (line 502); the background loop then
  migrates the chunk without \<^verbatim>\<open>sdf_data\<close> and \<^verbatim>\<open>mat_data\<close>, although the texture reads back
  as four bytes. The same happens when the background loop runs between the two critical
  sections of \<^verbatim>\<open>dispatch_chunk_async\<close> (\<open>lod0_raced\<close>), and for the chunk that a
  \<^verbatim>\<open>generate_block\<close> request for LOD 0 dispatches itself (\<open>sync_completed\<close>).
\<close>

theorem lod0_readback_skipped:
  "map (\<lambda>(k, st). (k, lod st, physics_needed st)) (chunk_gpu_states lod0_dispatched)
     = [((0, 0, 0), 0, True)]
   \<and> map (\<lambda>(k, st). (k, lod st, physics_needed st)) (chunk_gpu_states lod0_requested_again)
     = [((0, 0, 0), 0, False)]
   \<and> chunk_gpu_states lod0_completed = []
   \<and> sdf_cache lod0_completed
     = [(VecKey (0, 0, 0),
         [(''sdf'', VRid 11), (''material'', VRid 12), (''gpu_complete'', VBool True)])]
   \<and> contents (rd lod0_completed) 11 = [1, 2, 3, 4]
   \<and> chunk_gpu_states lod0_raced = []
   \<and> sdf_cache lod0_raced
     = [(VecKey (0, 0, 0),
         [(''sdf'', VRid 7), (''material'', VRid 8), (''gpu_complete'', VBool True)])]
   \<and> map (\<lambda>(k, st). (k, lod st, physics_needed st)) (chunk_gpu_states (snd (snd sync_first)))
     = [((0, 0, 0), 0, False)]
   \<and> chunk_gpu_states sync_completed = []
   \<and> sdf_cache sync_completed
     = [(VecKey (0, 0, 0),
         [(''sdf'', VRid 7), (''material'', VRid 8), (''gpu_complete'', VBool True)])]"
  by (simp add: lod0_dispatched_def lod0_requested_again_def lod0_completed_def lod0_raced_def
      sync_first_def sync_completed_def terrain_ready_eq terr_defs Let_def dispatch_loop.simps)

subsection \<open>Polling\<close>

lemma terrain_in_flight_eq:
  "terrain_in_flight =
     terrain_ready
       \<lparr> rd := \<lparr> next_id = 10, live = [9, 8, 7, 5, 4, 3, 2, 1], create_results = [],
                 submitted = [BiomeMapJob, ChunkJob (0, 0, 0)],
                 contents = (\<lambda>r. [1, 2, 3, 4]) \<rparr>,
         biome_map_texture := 5, cached_sampler := 9,
         chunk_gpu_states :=
           [((0, 0, 0), \<lparr> sdf_texture = 7, material_texture = 8, fence = 0,
                          dispatch_time_us = 20, completion_time_us = 0,
                          gpu_complete = False, cpu_readback_complete = False,
                          physics_needed = False, lod = 1, sdf_data = [], mat_data = [] \<rparr>)],
         player_position := (16, 16, 16), chunks_dispatched_this_frame := 1,
         current_frame_gpu_time_us := 2000 \<rparr>"
  by (simp add: terrain_in_flight_def terrain_ready_eq terr_defs Let_def dispatch_loop.simps)


text \<open>
  C5. A chunk requested with LOD 1 polls not ready while in flight and ready once the
  background loop has marked it complete. A later poll whose cache lookup runs before the
  migration (it finds nothing) and whose in-flight lookup runs after it (the record is
  erased) reports not ready; a poll after that reports ready again.
\<close>

theorem poll_ready_flips_back:
  "\<not> ready (get_chunk_gpu_textures terrain_in_flight (0, 0, 0))
   \<and> ready (get_chunk_gpu_textures terrain_marked (0, 0, 0))
   \<and> lookup_cached_textures terrain_marked (0, 0, 0) = None
   \<and> \<not> ready (lookup_inflight_textures terrain_migrated (0, 0, 0))
   \<and> ready (get_chunk_gpu_textures terrain_migrated (0, 0, 0))"
  by (simp add: terrain_marked_def terrain_migrated_def terrain_in_flight_eq terrain_ready_eq
      terr_defs Let_def)

section \<open>Further properties of the background loop\<close>

subsection \<open>Polls that are not interrupted\<close>

lemma lookup_cached_after_migrate:
  assumes "map_of (chunk_gpu_states s) org = Some st"
  shows "lookup_cached_textures (worker_migrate s org np sdf mat) org \<noteq> None"
  using assms
  by (simp add: lookup_cached_textures_def worker_migrate_def Let_def update_conv' has_def
      dict_get_def as_bool_def)

lemma get_textures_other_chunk:
  assumes "c \<noteq> org"
  shows "get_chunk_gpu_textures (worker_migrate s org np sdf mat) c = get_chunk_gpu_textures s c"
  using assms
  by (simp add: get_chunk_gpu_textures_def lookup_cached_textures_def lookup_inflight_textures_def
      worker_migrate_def Let_def update_conv' delete_conv' split: option.splits)

lemma ready_lookup_cached:
  "lookup_cached_textures s c = Some r \<Longrightarrow> ready r"
  by (auto simp add: lookup_cached_textures_def ready_def dict_get_def as_bool_def
      split: option.splits if_splits)

lemma ready_after_readback_one:
  assumes "ready (get_chunk_gpu_textures s c)"
  shows "ready (get_chunk_gpu_textures (readback_one org s) c)"
proof (cases "map_of (chunk_gpu_states s) org")
  case None
  then have "readback_one org s = s"
    by (simp add: readback_one_def worker_read_flags_def)
  with assms show ?thesis by simp
next
  case (Some st)
  define s' where "s' = readback_one org s"
  obtain np sdf mat where s': "s' = worker_migrate s org np sdf mat"
    using Some by (simp add: s'_def readback_one_def worker_read_flags_def Let_def)
  show ?thesis
  proof (cases "c = org")
    case True
    from lookup_cached_after_migrate [OF Some, of np sdf mat]
    obtain r where "lookup_cached_textures s' org = Some r"
      unfolding s' by blast
    then show ?thesis
      using ready_lookup_cached [of s' org r] True
      by (simp add: get_chunk_gpu_textures_def flip: s'_def)
  next
    case False
    with assms show ?thesis
      using get_textures_other_chunk [OF False, of s np sdf mat]
      by (simp add: s' flip: s'_def)
  qed
qed

lemma mark_complete_one_cache:
  "sdf_cache (fst (mark_complete_one now org (s, tr))) = sdf_cache s"
  by (simp add: mark_complete_one_def Let_def split: option.splits)

lemma lookup_cached_textures_cong:
  "sdf_cache s' = sdf_cache s \<Longrightarrow> lookup_cached_textures s' c = lookup_cached_textures s c"
  by (simp add: lookup_cached_textures_def)

lemma ready_after_mark_complete_one:
  assumes "ready (get_chunk_gpu_textures s c)"
  shows "ready (get_chunk_gpu_textures (fst (mark_complete_one now org (s, tr))) c)"
proof (cases "lookup_cached_textures s c")
  case (Some r)
  have "lookup_cached_textures (fst (mark_complete_one now org (s, tr))) c = Some r"
    using Some lookup_cached_textures_cong [OF mark_complete_one_cache] by simp
  then show ?thesis
    using ready_lookup_cached [OF Some] by (simp add: get_chunk_gpu_textures_def)
next
  case None
  with assms have r: "ready (lookup_inflight_textures s c)"
    by (simp add: get_chunk_gpu_textures_def)
  have c: "lookup_cached_textures (fst (mark_complete_one now org (s, tr))) c = None"
    using None lookup_cached_textures_cong [OF mark_complete_one_cache] by simp
  have "ready (lookup_inflight_textures (fst (mark_complete_one now org (s, tr))) c)"
    using r
    by (auto simp add: lookup_inflight_textures_def mark_complete_one_def Let_def update_conv'
        ready_def dict_get_def as_bool_def split: option.splits if_splits)
  with c show ?thesis by (simp add: get_chunk_gpu_textures_def)
qed

lemma ready_after_fold_readback:
  "ready (get_chunk_gpu_textures s c) \<Longrightarrow>
   ready (get_chunk_gpu_textures (fold readback_one orgs s) c)"
  by (induction orgs arbitrary: s) (simp_all add: ready_after_readback_one)

lemma ready_after_fold_mark:
  "ready (get_chunk_gpu_textures (fst acc) c) \<Longrightarrow>
   ready (get_chunk_gpu_textures (fst (fold (mark_complete_one now) orgs acc)) c)"
proof (induction orgs arbitrary: acc)
  case Nil
  then show ?case by simp
next
  case (Cons org orgs)
  obtain s tr where acc: "acc = (s, tr)" by (cases acc)
  with Cons.prems have "ready (get_chunk_gpu_textures (fst (mark_complete_one now org acc)) c)"
    by (simp add: ready_after_mark_complete_one)
  then show ?case
    using Cons.IH by simp
qed


text \<open>
  X1. A poll that runs as a whole (both lookups of \<^verbatim>\<open>get_chunk_gpu_textures\<close> with no
  step of the background loop in between) and reports ready still reports ready after any
  whole iteration of the background loop: marking and migration never take readiness away.
\<close>

theorem poll_ready_kept_by_worker_iteration:
  assumes "ready (get_chunk_gpu_textures s c)"
  shows "ready (get_chunk_gpu_textures (readback_worker_iteration s now) c)"
proof -
  obtain tc tr where snap: "worker_snapshot s = (tc, tr)" by (cases "worker_snapshot s")
  obtain s1 tr1 where mark: "worker_mark_complete s tc tr now = (s1, tr1)"
    by (cases "worker_mark_complete s tc tr now")
  have "ready (get_chunk_gpu_textures (fst (worker_mark_complete s tc tr now)) c)"
    using assms ready_after_fold_mark [of "(s, tr)" c now tc]
    by (simp add: worker_mark_complete_def)
  then have "ready (get_chunk_gpu_textures s1 c)" by (simp add: mark)
  then show ?thesis
    by (simp add: readback_worker_iteration_def snap mark ready_after_fold_readback)
qed


theorem poll_ready_kept_by_worker_iteration_witness:
  "ready (get_chunk_gpu_textures terrain_marked (0, 0, 0))
   \<and> ready (get_chunk_gpu_textures (readback_worker_iteration terrain_marked 40) (0, 0, 0))"
proof -
  have h: "ready (get_chunk_gpu_textures terrain_marked (0, 0, 0))"
    by (simp add: terrain_marked_def terrain_in_flight_eq terrain_ready_eq terr_defs Let_def)
  show ?thesis
    using h poll_ready_kept_by_worker_iteration [OF h, of 40] by blast
qed

subsection \<open>What the migration stores\<close>

text \<open>
  X2. The migration of an in-flight chunk (lines 957-1004) erases its in-flight record and
  stores a cache entry under the chunk's origin with the two texture handles and
  \<^verbatim>\<open>gpu_complete = true\<close>; the entry holds \<^verbatim>\<open>sdf_data\<close> and \<^verbatim>\<open>mat_data\<close> exactly when the
  record had \<^verbatim>\<open>physics_needed\<close> set and both textures read back non-empty, and then they
  are the bytes read back.
\<close>

theorem readback_one_gating:
  assumes "map_of (chunk_gpu_states s) org = Some st"
  shows "map_of (chunk_gpu_states (readback_one org s)) org = None
    \<and> (\<exists>d. map_of (sdf_cache (readback_one org s)) (VecKey org) = Some d
          \<and> dict_get d ''sdf'' = VRid (sdf_texture st)
          \<and> dict_get d ''material'' = VRid (material_texture st)
          \<and> dict_get d ''gpu_complete'' = VBool True
          \<and> ((has d ''sdf_data'' \<and> has d ''mat_data'')
               = (physics_needed st \<and> contents (rd s) (sdf_texture st) \<noteq> []
                  \<and> contents (rd s) (material_texture st) \<noteq> []))
          \<and> (physics_needed st \<and> contents (rd s) (sdf_texture st) \<noteq> []
                  \<and> contents (rd s) (material_texture st) \<noteq> []
              \<longrightarrow> dict_get d ''sdf_data'' = VBytes (contents (rd s) (sdf_texture st))
                  \<and> dict_get d ''mat_data'' = VBytes (contents (rd s) (material_texture st))))"
  using assms
  by (simp add: readback_one_def worker_read_flags_def worker_migrate_def Let_def update_conv'
      delete_conv' has_def dict_get_def)

theorem readback_one_gating_witness:
  "map_of (chunk_gpu_states lod0_dispatched) (0, 0, 0)
     = Some \<lparr> sdf_texture = 7, material_texture = 8, fence = 0, dispatch_time_us = 20,
              completion_time_us = 0, gpu_complete = False, cpu_readback_complete = False,
              physics_needed = True, lod = 0, sdf_data = [], mat_data = [] \<rparr>
   \<and> contents (rd lod0_dispatched) 7 = [1, 2, 3, 4]
   \<and> contents (rd lod0_dispatched) 8 = [1, 2, 3, 4]
   \<and> map_of (chunk_gpu_states (readback_one (0, 0, 0) lod0_dispatched)) (0, 0, 0) = None
   \<and> (\<exists>d. map_of (sdf_cache (readback_one (0, 0, 0) lod0_dispatched)) (VecKey (0, 0, 0))
             = Some d
           \<and> dict_get d ''sdf_data'' = VBytes [1, 2, 3, 4]
           \<and> dict_get d ''mat_data'' = VBytes [1, 2, 3, 4])"
proof -
  have h: "map_of (chunk_gpu_states lod0_dispatched) (0, 0, 0)
     = Some \<lparr> sdf_texture = 7, material_texture = 8, fence = 0, dispatch_time_us = 20,
              completion_time_us = 0, gpu_complete = False, cpu_readback_complete = False,
              physics_needed = True, lod = 0, sdf_data = [], mat_data = [] \<rparr>"
    and c: "contents (rd lod0_dispatched) 7 = [1, 2, 3, 4]"
      "contents (rd lod0_dispatched) 8 = [1, 2, 3, 4]"
    by (simp_all add: lod0_dispatched_def terrain_ready_eq terr_defs Let_def
        dispatch_loop.simps)
  show ?thesis
    using h c readback_one_gating [OF h] by auto
qed

end
